theory Spec2Isabelle
  imports Main "HOL-Library.Word" "HOL-Library.Sublist"
begin

unbundle bit_operations_syntax

section \<open>The Go library functions the launcher calls\<close>

text \<open>
  The launcher (\<^verbatim>\<open>minecraftLauncher.go\<close>) is one \<^verbatim>\<open>main\<close> function over a handful of
  calls into the Go standard library. Go strings are byte sequences, as \<^typ>\<open>string\<close> is;
  file contents and digests are lists of 8-bit words.
\<close>

type_synonym byte = "8 word"

text \<open>
  \<^verbatim>\<open>strings.Split(s, sep)\<close> for a separator of one byte, the only kind the launcher uses
  (\<^verbatim>\<open>":"\<close>, \<^verbatim>\<open>"."\<close>, \<^verbatim>\<open>" "\<close>): \<open>n\<close> occurrences of the separator give \<open>n + 1\<close> pieces,
  empty pieces included; the result is never empty.
\<close>

fun strings_Split :: "string \<Rightarrow> char \<Rightarrow> string list" where
  "strings_Split [] sep = [[]]"
| "strings_Split (x # xs) sep =
     (if x = sep then [] # strings_Split xs sep
      else (case strings_Split xs sep of
              [] \<Rightarrow> [[x]]
            | piece # pieces \<Rightarrow> (x # piece) # pieces))"

text \<open>
  \<^verbatim>\<open>strings.SplitN(s, sep, n)\<close> for \<open>n \<ge> 0\<close>: at most \<open>n\<close> pieces, the last one the
  unsplit remainder; \<open>n = 0\<close> gives no piece at all.
\<close>

fun strings_SplitN :: "string \<Rightarrow> char \<Rightarrow> nat \<Rightarrow> string list" where
  "strings_SplitN s sep 0 = []"
| "strings_SplitN s sep (Suc 0) = [s]"
| "strings_SplitN s sep (Suc (Suc n)) =
     (case dropWhile (\<lambda>x. x \<noteq> sep) s of
        [] \<Rightarrow> [s]
      | _ # rest \<Rightarrow> takeWhile (\<lambda>x. x \<noteq> sep) s # strings_SplitN rest sep (Suc n))"

text \<open>\<^verbatim>\<open>strings.Join(elems, sep)\<close>.\<close>

fun strings_Join :: "string list \<Rightarrow> string \<Rightarrow> string" where
  "strings_Join [] sep = []"
| "strings_Join [e] sep = e"
| "strings_Join (e # e' # es) sep = e @ sep @ strings_Join (e' # es) sep"

text \<open>
  \<^verbatim>\<open>path.Clean\<close>, element by element as its documentation states it: empty elements and
  \<^verbatim>\<open>.\<close> are dropped; \<^verbatim>\<open>..\<close> removes the element before it when that is a real one, is
  dropped at the start of a rooted path and kept at the start of a relative one. \<open>out\<close>
  is the list of elements written so far.
\<close>

definition cleanElem :: "bool \<Rightarrow> string list \<Rightarrow> string \<Rightarrow> string list" where
  "cleanElem rooted out e =
     (if e = [] \<or> e = ''.'' then out
      else if e = ''..'' then
        (if out \<noteq> [] \<and> last out \<noteq> ''..'' then butlast out
         else if \<not> rooted then out @ [''..'']
         else out)
      else out @ [e])"

definition path_Clean :: "string \<Rightarrow> string" where
  "path_Clean p =
     (if p = [] then ''.''
      else
        let rooted = (hd p = CHR ''/'');
            out = foldl (cleanElem rooted) [] (strings_Split p CHR ''/'')
        in if rooted then CHR ''/'' # strings_Join out ''/''
           else if out = [] then ''.''
           else strings_Join out ''/'')"

text \<open>
  \<^verbatim>\<open>path.Join(elem...)\<close>: leading empty elements are ignored, the rest is joined with
  slashes and cleaned; no non-empty element gives the empty string.
\<close>

definition path_Join :: "string list \<Rightarrow> string" where
  "path_Join elem =
     (case dropWhile (\<lambda>e. e = []) elem of
        [] \<Rightarrow> []
      | es \<Rightarrow> path_Clean (strings_Join es ''/''))"

text \<open>A Go map read \<^verbatim>\<open>m[k]\<close> gives the zero value of the value type for a missing key.\<close>

definition mapIndex :: "'v \<Rightarrow> ('k \<rightharpoonup> 'v) \<Rightarrow> 'k \<Rightarrow> 'v" where
  "mapIndex zero m k = (case m k of None \<Rightarrow> zero | Some v \<Rightarrow> v)"

section \<open>Data model\<close>

text \<open>The constants of lines 18 to 26.\<close>

definition versionsDir :: string where "versionsDir = ''versions''"
definition libraryDir :: string where "libraryDir = ''libraries''"
definition jarExt :: string where "jarExt = ''.jar''"
definition sigExt :: string where "sigExt = ''.sha''"
definition allow :: string where "allow = ''allow''"

text \<open>
  The structs of lines 28 to 66. Field names are prefixed with the struct's name, since
  \<^verbatim>\<open>Name\<close>, \<^verbatim>\<open>Args\<close> and \<^verbatim>\<open>ID\<close> occur in several of them.
\<close>

record Profile =
  Profile_ID :: string
  Profile_Args :: string

record User =
  User_Name :: string
  User_AccessToken :: string

record ProfileData =
  Profiles :: "string \<rightharpoonup> Profile"
  SelectedProfile :: string
  Users :: "string \<rightharpoonup> User"
  SelectedUser :: string

record OS =
  OS_Name :: string
  OS_Version :: string

record Rule =
  Rule_Action :: string
  Rule_OS :: OS

record Library =
  Library_Name :: string
  Library_Rules :: "Rule list"
  Library_Natives :: "string \<rightharpoonup> string"
  Library_Extract :: "string \<rightharpoonup> string list"

record LaunchConfig =
  LaunchConfig_Args :: string
  LaunchConfig_Libraries :: "Library list"
  LaunchConfig_Class :: string

definition zeroProfile :: Profile where
  "zeroProfile = \<lparr>Profile_ID = [], Profile_Args = []\<rparr>"

definition zeroUser :: User where
  "zeroUser = \<lparr>User_Name = [], User_AccessToken = []\<rparr>"

section \<open>Rule evaluation (lines 162 to 171)\<close>

text \<open>
  \<^verbatim>\<open>runtime.GOOS\<close> with the \<^verbatim>\<open>switch\<close> of lines 147 to 151: only \<^verbatim>\<open>darwin\<close> is renamed.
\<close>

definition osStr_of :: "string \<Rightarrow> string" where
  "osStr_of goos = (if goos = ''darwin'' then ''osx'' else goos)"

text \<open>The condition of line 164. The rule's \<^verbatim>\<open>OS.Version\<close> is not read.\<close>

definition ruleMatches :: "string \<Rightarrow> Rule \<Rightarrow> bool" where
  "ruleMatches osStr rule \<longleftrightarrow> OS_Name (Rule_OS rule) = osStr \<or> OS_Name (Rule_OS rule) = []"

text \<open>The loop of lines 163 to 168, with the variable \<^verbatim>\<open>allowed\<close> threaded through.\<close>

fun rulesLoop :: "string \<Rightarrow> bool \<Rightarrow> Rule list \<Rightarrow> bool" where
  "rulesLoop osStr allowed [] = allowed"
| "rulesLoop osStr allowed (rule # rules) =
     rulesLoop osStr
       (if ruleMatches osStr rule then Rule_Action rule = allow else allowed) rules"

text \<open>Line 162 and the loop: the value of \<^verbatim>\<open>allowed\<close> tested at line 169.\<close>

definition allowed :: "string \<Rightarrow> Library \<Rightarrow> bool" where
  "allowed osStr library =
     rulesLoop osStr (length (Library_Rules library) = 0) (Library_Rules library)"

section \<open>Coordinate resolution (lines 172 to 180 and 227 to 228)\<close>

text \<open>
  What \<^verbatim>\<open>fail\<close> prints, one constructor for each message of the source. The last two
  are printed without \<^verbatim>\<open>fail\<close> (lines 274 and 284); \<open>IndexOutOfRange\<close> is the run-time
  panic of an index expression.
\<close>

datatype failure =
    UnknownLibraryFormat string
  | SignatureOpenFailure
  | SignatureReadFailure
  | NativeOpenFailure
  | NativeReadFailure
  | SignatureVerificationFailed string "byte list"
  | ZipOpenFailure
  | CreateFailure
  | EntryOpenFailure
  | DecompressFailure
  | RemoveNativesFailure
  | StdoutPipeFailure
  | StartFailure
  | IndexOutOfRange

text \<open>
  Lines 172 to 180 and 227 to 228: from the library's name and its entry
  \<^verbatim>\<open>library.Natives[osStr]\<close> (empty when there is none) to the file name and the path of
  the archive. The two branches of line 178 differ in the file name only.
\<close>

definition resolveLibrary :: "string \<Rightarrow> string \<Rightarrow> string \<Rightarrow> failure + string \<times> string" where
  "resolveLibrary minecraftDir name native =
     (case strings_SplitN name CHR '':'' 2 of
        [piece0, piece1] \<Rightarrow>
          let librarySplit = strings_Split piece1 CHR '':'';
              pathSplit = strings_Split piece0 CHR ''.'' @ librarySplit;
              filename =
                (if native \<noteq> [] then strings_Join librarySplit ''-'' @ ''-'' @ native @ jarExt
                 else strings_Join librarySplit ''-'' @ jarExt)
          in Inr (filename,
                  path_Join [path_Join [minecraftDir, libraryDir],
                             path_Join (pathSplit @ [filename])])
      | _ \<Rightarrow> Inl (UnknownLibraryFormat name))"

section \<open>The file system and the environment\<close>

text \<open>
  The file system as the launcher sees it: a name is a regular file with its bytes, a
  directory, or absent. Names are the strings handed to the \<^verbatim>\<open>os\<close> package, all of them
  results of \<^verbatim>\<open>path.Join\<close>. Permissions, links and full disks are not modelled.
\<close>

datatype node = File "byte list" | Dir

type_synonym filesystem = "string \<rightharpoonup> node"

definition parentOf :: "string \<Rightarrow> string" where
  "parentOf name =
     (let es = strings_Split name CHR ''/''
      in if length es \<le> 1 then ''.''
         else if butlast es = [[]] then ''/''
         else strings_Join (butlast es) ''/'')"

text \<open>\<^verbatim>\<open>os.Mkdir\<close>; the launcher drops its error (line 155), so a failure leaves the
  file system as it was.\<close>

definition os_Mkdir :: "filesystem \<Rightarrow> string \<Rightarrow> filesystem" where
  "os_Mkdir fs name =
     (case fs (parentOf name) of
        Some Dir \<Rightarrow> (case fs name of None \<Rightarrow> fs(name \<mapsto> Dir) | Some _ \<Rightarrow> fs)
      | _ \<Rightarrow> fs)"

text \<open>\<^verbatim>\<open>os.Create\<close>: the parent must be a directory and the name must not be one; an
  existing file is truncated.\<close>

definition os_Create :: "filesystem \<Rightarrow> string \<Rightarrow> filesystem option" where
  "os_Create fs name =
     (case fs (parentOf name) of
        Some Dir \<Rightarrow> (case fs name of Some Dir \<Rightarrow> None | _ \<Rightarrow> Some (fs(name \<mapsto> File [])))
      | _ \<Rightarrow> None)"

text \<open>\<^verbatim>\<open>os.RemoveAll\<close>: the name and everything below it. Without permissions in the
  model it always succeeds.\<close>

definition os_RemoveAll :: "filesystem \<Rightarrow> string \<Rightarrow> filesystem option" where
  "os_RemoveAll fs name =
     Some (\<lambda>p. if p = name \<or> prefix (name @ ''/'') p then None else fs p)"

text \<open>\<^verbatim>\<open>io.ReadFull\<close> into a buffer of \<open>n\<close> bytes from a freshly opened file, and reading
  a file to its end (\<^verbatim>\<open>io.Copy\<close>). Reading a directory is an error.\<close>

definition io_ReadFull :: "node \<Rightarrow> nat \<Rightarrow> byte list option" where
  "io_ReadFull f n =
     (case f of Dir \<Rightarrow> None
      | File bytes \<Rightarrow> if length bytes < n then None else Some (take n bytes))"

definition io_ReadAll :: "node \<Rightarrow> byte list option" where
  "io_ReadAll f = (case f of Dir \<Rightarrow> None | File bytes \<Rightarrow> Some bytes)"

text \<open>
  An entry of an opened zip archive (\<^verbatim>\<open>zip.File\<close>): its name, and what \<^verbatim>\<open>file.Open()\<close>
  followed by \<^verbatim>\<open>io.Copy\<close> gives: \<open>None\<close> when \<^verbatim>\<open>Open\<close> fails, otherwise the decompressed
  bytes delivered and whether the stream ended without an error.
\<close>

record zipFile =
  zipFile_Name :: string
  zipFile_Open :: "(byte list \<times> bool) option"

text \<open>What happens to the child process: the pipe cannot be made, the process cannot
  be started, or it runs and exits with a status.\<close>

datatype child = PipeFailed | StartFailed | Exited int

text \<open>
  The parts of the Go library and of the machine that the launcher takes as given:
  \<^verbatim>\<open>crypto/sha1\<close> (the digest of the bytes written to the hash), \<^verbatim>\<open>zip.NewReader\<close>
  (\<open>None\<close> when the bytes are no archive) and the \<^verbatim>\<open>java\<close> process.
\<close>

record env =
  sha1_Sum :: "byte list \<Rightarrow> byte list"
  zip_NewReader :: "byte list \<Rightarrow> zipFile list option"
  java :: "string list \<Rightarrow> child"

section \<open>Termination of the launcher\<close>

text \<open>
  How a run ends before \<^verbatim>\<open>main\<close> returns: the exit status, the message and the file
  system left behind. \<open>fail\<close> is lines 70 to 75 with \<^verbatim>\<open>test\<close> true: \<^verbatim>\<open>os.Exit(0)\<close>. A Go
  panic ends the program with status 2.
\<close>

record exit =
  exit_status :: int
  exit_message :: failure
  exit_fs :: filesystem

definition fail :: "failure \<Rightarrow> filesystem \<Rightarrow> exit + 'a" where
  "fail message fs = Inl \<lparr>exit_status = 0, exit_message = message, exit_fs = fs\<rparr>"

definition panic :: "filesystem \<Rightarrow> exit + 'a" where
  "panic fs = Inl \<lparr>exit_status = 2, exit_message = IndexOutOfRange, exit_fs = fs\<rparr>"

section \<open>Signature verification (lines 177 to 200)\<close>

text \<open>Line 68.\<close>

definition hex :: "byte list" where
  "hex = map of_char ''0123456789abcdef''"

text \<open>
  The loop of lines 196 to 198 over the digest, \<open>n\<close> the index of the byte \<open>b\<close>. In Go
  \<^verbatim>\<open>n<<1+1\<close> is \<^verbatim>\<open>(n<<1)+1\<close>. The two comparisons are joined by \<^verbatim>\<open>||\<close>, so the second
  index is only read when the first comparison found equal bytes.
\<close>

fun signatureLoop :: "string \<Rightarrow> byte list \<Rightarrow> filesystem \<Rightarrow> nat \<Rightarrow> byte list \<Rightarrow> exit + unit" where
  "signatureLoop filename signature fs n [] = Inr ()"
| "signatureLoop filename signature fs n (b # bs) =
     (if length signature \<le> 2 * n then panic fs
      else if hex ! unat (drop_bit 4 b) \<noteq> signature ! (2 * n)
        then fail (SignatureVerificationFailed filename signature) fs
      else if length signature \<le> 2 * n + 1 then panic fs
      else if hex ! unat (b AND 15) \<noteq> signature ! (2 * n + 1)
        then fail (SignatureVerificationFailed filename signature) fs
      else signatureLoop filename signature fs (n + 1) bs)"

text \<open>
  Lines 182 to 200. \<open>hash\<close> is what has been written to the hash object of line 159
  since its last \<^verbatim>\<open>Reset\<close>; the result is the archive's bytes and the hash object's
  content after line 200.
\<close>

definition verifySignature ::
  "env \<Rightarrow> filesystem \<Rightarrow> byte list \<Rightarrow> string \<Rightarrow> string \<Rightarrow> exit + byte list \<times> byte list" where
  "verifySignature env fs hash nativeLib filename =
     (case fs (nativeLib @ sigExt) of
        None \<Rightarrow> fail SignatureOpenFailure fs
      | Some sig \<Rightarrow>
        (case io_ReadFull sig 40 of
           None \<Rightarrow> fail SignatureReadFailure fs
         | Some signature \<Rightarrow>
           (case fs nativeLib of
              None \<Rightarrow> fail NativeOpenFailure fs
            | Some f \<Rightarrow>
              (case io_ReadAll f of
                 None \<Rightarrow> fail NativeReadFailure fs
               | Some bytes \<Rightarrow>
                 (case signatureLoop filename signature fs 0 (sha1_Sum env (hash @ bytes)) of
                    Inl e \<Rightarrow> Inl e
                  | Inr _ \<Rightarrow> Inr (bytes, []))))))"

section \<open>Extraction (lines 202 to 225)\<close>

text \<open>The inner loop of lines 211 to 215: some exclusion is an initial segment of the name.\<close>

definition excluded :: "string list \<Rightarrow> string \<Rightarrow> bool" where
  "excluded excludes name =
     list_ex (\<lambda>exclude. length name \<ge> length exclude \<and> take (length exclude) name = exclude)
       excludes"

text \<open>
  \<^verbatim>\<open>ZipLoop\<close>, lines 210 to 224. \<^verbatim>\<open>os.Create\<close> comes before \<^verbatim>\<open>file.Open\<close>, so an entry
  that cannot be opened leaves an empty file; a stream that breaks leaves the bytes
  copied before the error.
\<close>

fun zipLoop :: "string \<Rightarrow> string list \<Rightarrow> filesystem \<Rightarrow> zipFile list \<Rightarrow> exit + filesystem" where
  "zipLoop nativesDir excludes fs [] = Inr fs"
| "zipLoop nativesDir excludes fs (file # files) =
     (if excluded excludes (zipFile_Name file) then zipLoop nativesDir excludes fs files
      else
        (case os_Create fs (path_Join [nativesDir, zipFile_Name file]) of
           None \<Rightarrow> fail CreateFailure fs
         | Some fs1 \<Rightarrow>
           (case zipFile_Open file of
              None \<Rightarrow> fail EntryOpenFailure fs1
            | Some (bytes, ok) \<Rightarrow>
                let fs2 = fs1(path_Join [nativesDir, zipFile_Name file] \<mapsto> File bytes)
                in if ok then zipLoop nativesDir excludes fs2 files
                   else fail DecompressFailure fs2)))"

text \<open>
  Lines 202 to 225 for the archive's bytes read at line 193. \<^verbatim>\<open>Seek\<close> to the start of
  an open regular file does not fail here; the reader sees the whole file.
\<close>

definition extractNative ::
  "env \<Rightarrow> string \<Rightarrow> string list \<Rightarrow> filesystem \<Rightarrow> byte list \<Rightarrow> exit + filesystem" where
  "extractNative env nativesDir excludes fs bytes =
     (case zip_NewReader env bytes of
        None \<Rightarrow> fail ZipOpenFailure fs
      | Some files \<Rightarrow> zipLoop nativesDir excludes fs files)"

section \<open>The loop over the libraries (lines 157 to 231)\<close>

text \<open>What the loop changes: the file system, the slice \<^verbatim>\<open>libraries\<close> and the hash object.\<close>

record lstate =
  st_fs :: filesystem
  st_libraries :: "string list"
  st_hash :: "byte list"

definition processLibrary ::
  "env \<Rightarrow> string \<Rightarrow> string \<Rightarrow> string \<Rightarrow> lstate \<Rightarrow> Library \<Rightarrow> exit + lstate" where
  "processLibrary env minecraftDir nativesDir osStr st library =
     (if \<not> allowed osStr library then Inr st
      else
        (case resolveLibrary minecraftDir (Library_Name library)
                (mapIndex [] (Library_Natives library) osStr) of
           Inl message \<Rightarrow> fail message (st_fs st)
         | Inr (filename, libPath) \<Rightarrow>
             if mapIndex [] (Library_Natives library) osStr \<noteq> [] then
               (case verifySignature env (st_fs st) (st_hash st) libPath filename of
                  Inl e \<Rightarrow> Inl e
                | Inr (bytes, hash') \<Rightarrow>
                  (case extractNative env nativesDir
                          (mapIndex [] (Library_Extract library) ''exclude'') (st_fs st) bytes of
                     Inl e \<Rightarrow> Inl e
                   | Inr fs' \<Rightarrow> Inr (st\<lparr>st_fs := fs', st_hash := hash'\<rparr>)))
             else Inr (st\<lparr>st_libraries := st_libraries st @ [libPath]\<rparr>)))"

fun libraryLoop ::
  "env \<Rightarrow> string \<Rightarrow> string \<Rightarrow> string \<Rightarrow> lstate \<Rightarrow> Library list \<Rightarrow> exit + lstate" where
  "libraryLoop env minecraftDir nativesDir osStr st [] = Inr st"
| "libraryLoop env minecraftDir nativesDir osStr st (library # rest) =
     (case processLibrary env minecraftDir nativesDir osStr st library of
        Inl e \<Rightarrow> Inl e
      | Inr st' \<Rightarrow> libraryLoop env minecraftDir nativesDir osStr st' rest)"

section \<open>Argument substitution (lines 247 to 261)\<close>

text \<open>One iteration of the loop of line 248: the \<^verbatim>\<open>switch\<close> on \<^verbatim>\<open>ma[i]\<close>, writing \<^verbatim>\<open>ma[i]\<close>.\<close>

definition substituteArg ::
  "string \<Rightarrow> ProfileData \<Rightarrow> string \<Rightarrow> string \<Rightarrow> string list \<Rightarrow> nat \<Rightarrow> string list" where
  "substituteArg minecraftDir profileData user profile ma i =
     (let arg = ma ! i
      in if arg = ''${auth_player_name}'' then
           ma[i := User_Name (mapIndex zeroUser (Users profileData) user)]
         else if arg = ''${auth_session}'' then
           ma[i := ''token:'' @ User_AccessToken (mapIndex zeroUser (Users profileData) user)
                   @ '':'' @ user]
         else if arg = ''${version_name}'' then
           ma[i := Profile_ID (mapIndex zeroProfile (Profiles profileData) profile)]
         else if arg = ''${game_directory}'' then
           ma[i := minecraftDir]
         else if arg = ''${game_assets}'' then
           ma[i := path_Join [minecraftDir, ''assets'', ''virtual'', ''legacy'']]
         else ma)"

text \<open>Line 247 and the loop: \<^verbatim>\<open>range\<close> runs over the indices of \<^verbatim>\<open>ma\<close> in order.\<close>

definition substituteArgs ::
  "string \<Rightarrow> ProfileData \<Rightarrow> string \<Rightarrow> string \<Rightarrow> string \<Rightarrow> string list" where
  "substituteArgs minecraftDir profileData user profile Args =
     (let ma = strings_Split Args CHR '' ''
      in foldl (substituteArg minecraftDir profileData user profile) ma [0..<length ma])"

section \<open>Assembly of the command (lines 233 to 245 and 262)\<close>

definition assembleArgs :: "string \<Rightarrow> string list \<Rightarrow> string \<Rightarrow> string list \<Rightarrow> string list" where
  "assembleArgs nativesDir libraries Class ma =
     [''-Xmx1G'',
      ''-XX:+UseConcMarkSweepGC'',
      ''-XX:+CMSIncrementalMode'',
      ''-XX:-UseAdaptiveSizePolicy'',
      ''-Xmn128M'',
      ''-Djava.library.path='' @ nativesDir,
      ''-cp'',
      strings_Join libraries '':'',
      Class] @ ma"

section \<open>Supervision of the child and the whole run (lines 137 to 291)\<close>

text \<open>
  What a run of the launcher leaves: its own exit status, the messages on its standard
  error, the arguments handed to \<^verbatim>\<open>exec.Command("java", ...)\<close> when the run got that
  far, and the file system.
\<close>

record outcome =
  status :: int
  messages :: "failure list"
  command :: "string list option"
  final_fs :: filesystem

text \<open>
  Lines 263 to 291. The value of \<^verbatim>\<open>cmd.Wait()\<close> (line 288) is not bound to anything: the
  child's status \<open>code\<close> occurs on no right-hand side. Returning from \<^verbatim>\<open>main\<close> is exit
  status 0. The two \<^verbatim>\<open>go io.Copy\<close> statements are concurrent and not modelled.
\<close>

definition supervise :: "env \<Rightarrow> string \<Rightarrow> string list \<Rightarrow> filesystem \<Rightarrow> outcome" where
  "supervise env nativesDir args fs =
     (case java env args of
        PipeFailed \<Rightarrow>
          \<lparr>status = 0, messages = [StdoutPipeFailure], command = Some args, final_fs = fs\<rparr>
      | StartFailed \<Rightarrow>
          (case os_RemoveAll fs nativesDir of
             None \<Rightarrow> \<lparr>status = 0, messages = [StartFailure, RemoveNativesFailure],
                       command = Some args, final_fs = fs\<rparr>
           | Some fs' \<Rightarrow> \<lparr>status = 0, messages = [StartFailure],
                          command = Some args, final_fs = fs'\<rparr>)
      | Exited code \<Rightarrow>
          (case os_RemoveAll fs nativesDir of
             None \<Rightarrow> \<lparr>status = 0, messages = [RemoveNativesFailure],
                       command = Some args, final_fs = fs\<rparr>
           | Some fs' \<Rightarrow> \<lparr>status = 0, messages = [], command = Some args, final_fs = fs'\<rparr>))"

text \<open>
  Lines 137 and 153: the directory of the selected profile's version and the scratch
  directory for the natives below it.
\<close>

definition versionDir_of :: "string \<Rightarrow> ProfileData \<Rightarrow> string \<Rightarrow> string" where
  "versionDir_of minecraftDir profileData profile =
     path_Join [minecraftDir, versionsDir,
                Profile_ID (mapIndex zeroProfile (Profiles profileData) profile)]"

definition nativesDir_of :: "string \<Rightarrow> ProfileData \<Rightarrow> string \<Rightarrow> string" where
  "nativesDir_of minecraftDir profileData profile =
     path_Join [versionDir_of minecraftDir profileData profile, ''natives'']"

text \<open>
  \<^verbatim>\<open>main\<close> from line 137 on, for the decoded profile data, the selected user and profile
  and the decoded launch configuration (reading and decoding them is outside the core).
\<close>

definition main ::
  "env \<Rightarrow> string \<Rightarrow> string \<Rightarrow> ProfileData \<Rightarrow> string \<Rightarrow> string \<Rightarrow> LaunchConfig \<Rightarrow> filesystem
     \<Rightarrow> outcome" where
  "main env goos minecraftDir profileData user profile launchConfig fs =
     (let ID = Profile_ID (mapIndex zeroProfile (Profiles profileData) profile);
          versionDir = versionDir_of minecraftDir profileData profile;
          osStr = osStr_of goos;
          nativesDir = nativesDir_of minecraftDir profileData profile;
          fs1 = os_Mkdir fs nativesDir
      in case libraryLoop env minecraftDir nativesDir osStr
                \<lparr>st_fs = fs1, st_libraries = [], st_hash = []\<rparr>
                (LaunchConfig_Libraries launchConfig) of
           Inl e \<Rightarrow>
             \<lparr>status = exit_status e, messages = [exit_message e], command = None,
              final_fs = exit_fs e\<rparr>
         | Inr st \<Rightarrow>
             let libraries = st_libraries st @ [path_Join [versionDir, ID @ jarExt]];
                 ma = substituteArgs minecraftDir profileData user profile
                        (LaunchConfig_Args launchConfig)
             in supervise env nativesDir
                  (assembleArgs nativesDir libraries (LaunchConfig_Class launchConfig) ma)
                  (st_fs st))"

section \<open>The specification's wording, for comparison with the source\<close>

text \<open>
  The specification's \<open>RuntimeContext\<close> (its section 3), and where the launcher holds
  each of its parts at line 247.
\<close>

record RuntimeContext =
  playerName :: string
  sessionToken :: string
  selectedUserId :: string
  selectedVersionId :: string
  installDirectory :: string

definition runtimeContext :: "string \<Rightarrow> ProfileData \<Rightarrow> string \<Rightarrow> string \<Rightarrow> RuntimeContext" where
  "runtimeContext minecraftDir profileData user profile =
     \<lparr>playerName = User_Name (mapIndex zeroUser (Users profileData) user),
      sessionToken = User_AccessToken (mapIndex zeroUser (Users profileData) user),
      selectedUserId = user,
      selectedVersionId = Profile_ID (mapIndex zeroProfile (Profiles profileData) profile),
      installDirectory = minecraftDir\<rparr>"

text \<open>The table of the specification's section 4.5, token by token.\<close>

definition spec_replaceToken :: "RuntimeContext \<Rightarrow> string \<Rightarrow> string" where
  "spec_replaceToken context token =
     (if token = ''${auth_player_name}'' then playerName context
      else if token = ''${auth_session}'' then
        ''token:'' @ sessionToken context @ '':'' @ selectedUserId context
      else if token = ''${version_name}'' then selectedVersionId context
      else if token = ''${game_directory}'' then installDirectory context
      else if token = ''${game_assets}'' then
        path_Join [installDirectory context, ''assets'', ''virtual'', ''legacy'']
      else token)"

text \<open>
  "Split the template on whitespace into tokens": the tokens are the maximal runs of
  bytes that are not whitespace (space, tab, line feed, vertical tab, form feed,
  carriage return); \<open>cur\<close> is the token being read.
\<close>

definition spec_isWhitespace :: "char \<Rightarrow> bool" where
  "spec_isWhitespace c \<longleftrightarrow>
     c \<in> set [CHR '' '', CHR 0x09, CHR 0x0A, CHR 0x0B, CHR 0x0C, CHR 0x0D]"

fun spec_tokens :: "string \<Rightarrow> string \<Rightarrow> string list" where
  "spec_tokens cur [] = (if cur = [] then [] else [cur])"
| "spec_tokens cur (c # cs) =
     (if spec_isWhitespace c then (if cur = [] then [] else [cur]) @ spec_tokens [] cs
      else spec_tokens (cur @ [c]) cs)"

definition spec_splitWhitespace :: "string \<Rightarrow> string list" where
  "spec_splitWhitespace template = spec_tokens [] template"

definition spec_substitute :: "RuntimeContext \<Rightarrow> string \<Rightarrow> string list" where
  "spec_substitute context template =
     map (spec_replaceToken context) (spec_splitWhitespace template)"

text \<open>
  "The platform path separator" (the specification's section 4.6): the byte between the
  entries of a search path, \<^verbatim>\<open>;\<close> on Windows and \<^verbatim>\<open>:\<close> on the other platforms.
\<close>

definition spec_pathListSeparator :: "string \<Rightarrow> string" where
  "spec_pathListSeparator goos = (if goos = ''windows'' then '';'' else '':'')"

section \<open>Facts about the library functions\<close>

lemma strings_Split_not_Nil: "strings_Split s c \<noteq> []"
  by (induction s) (auto split: list.splits)



lemma strings_Split_pieces_no_sep: "e \<in> set (strings_Split s c) \<Longrightarrow> c \<notin> set e"
  by (induction s arbitrary: e) (auto split: if_splits list.splits)

lemma strings_Join_Split: "strings_Join (strings_Split s c) [c] = s"
proof (induction s)
  case Nil
  show ?case by simp
next
  case (Cons x xs)
  obtain p ps where eq: "strings_Split xs c = p # ps"
    using strings_Split_not_Nil by (cases "strings_Split xs c") auto
  show ?case
  proof (cases "x = c")
    case True
    with eq Cons show ?thesis by simp
  next
    case False
    with eq Cons show ?thesis by (cases ps) auto
  qed
qed

lemma dropWhile_sep_Nil: "dropWhile (\<lambda>x. x \<noteq> c) s = [] \<longleftrightarrow> c \<notin> set s"
  by (induction s) auto

lemma strings_SplitN_2:
  "strings_SplitN s c 2 =
     (if c \<in> set s then [takeWhile (\<lambda>x. x \<noteq> c) s, tl (dropWhile (\<lambda>x. x \<noteq> c) s)] else [s])"
proof -
  have eq: "strings_SplitN s c 2 =
      (case dropWhile (\<lambda>x. x \<noteq> c) s of [] \<Rightarrow> [s]
       | _ # rest \<Rightarrow> [takeWhile (\<lambda>x. x \<noteq> c) s, rest])"
    by (cases "dropWhile (\<lambda>x. x \<noteq> c) s")
       (simp_all add: numeral_2_eq_2 del: dropWhile_eq_Nil_conv)
  show ?thesis
  proof (cases "dropWhile (\<lambda>x. x \<noteq> c) s")
    case Nil
    then have "c \<notin> set s" by (rule iffD1 [OF dropWhile_sep_Nil])
    then show ?thesis unfolding eq Nil by simp
  next
    case (Cons y ys)
    have "c \<in> set s"
    proof (rule ccontr)
      assume "c \<notin> set s"
      then have "dropWhile (\<lambda>x. x \<noteq> c) s = []" by (rule iffD2 [OF dropWhile_sep_Nil])
      with Cons show False by simp
    qed
    then show ?thesis unfolding eq Cons by simp
  qed
qed


section \<open>Rule evaluation\<close>

lemma rulesLoop_append:
  "rulesLoop os a (xs @ ys) = rulesLoop os (rulesLoop os a xs) ys"
  by (induction xs arbitrary: a) auto

lemma rulesLoop_no_match:
  "\<forall>r\<in>set rs. \<not> ruleMatches os r \<Longrightarrow> rulesLoop os a rs = a"
  by (induction rs arbitrary: a) auto

lemma rulesLoop_last_match:
  assumes "ruleMatches os r" and "\<forall>r'\<in>set after. \<not> ruleMatches os r'"
  shows "rulesLoop os a (before @ r # after) = (Rule_Action r = allow)"
  using assms by (simp add: rulesLoop_append rulesLoop_no_match)

lemma rulesLoop_version:
  "length vs = length rs \<Longrightarrow>
   rulesLoop os a (map (\<lambda>(r, v). r\<lparr>Rule_OS := (Rule_OS r)\<lparr>OS_Version := v\<rparr>\<rparr>) (zip rs vs)) =
   rulesLoop os a rs"
proof (induction rs arbitrary: vs a)
  case Nil
  then show ?case by simp
next
  case (Cons r rs)
  then obtain v vs' where vs: "vs = v # vs'" and len: "length vs' = length rs"
    by (cases vs) auto
  have m: "ruleMatches os (r\<lparr>Rule_OS := (Rule_OS r)\<lparr>OS_Version := v\<rparr>\<rparr>) = ruleMatches os r"
    by (simp add: ruleMatches_def)
  show ?case using Cons.IH [OF len] by (simp add: vs m)
qed

text \<open>
  Claim C1. A library without rules is allowed. Otherwise the last rule of the list
  whose \<^verbatim>\<open>OS.Name\<close> is the current platform or empty decides: the library is allowed
  exactly when that rule's action is \<^verbatim>\<open>allow\<close>; a rule for another platform leaves the
  variable \<^verbatim>\<open>allowed\<close> as it is; and a library with rules none of which matches is not
  allowed. For the rules \<open>[{allow, ""}, {deny, "windows"}]\<close> the library is not allowed
  on \<^verbatim>\<open>windows\<close> and allowed on \<^verbatim>\<open>linux\<close>.
\<close>

theorem rule_evaluation_last_match_wins:
  "(Library_Rules library = [] \<longrightarrow> allowed osStr library) \<and>
   (Library_Rules library = before @ rule # after \<and>
    (OS_Name (Rule_OS rule) = osStr \<or> OS_Name (Rule_OS rule) = []) \<and>
    (\<forall>r\<in>set after. OS_Name (Rule_OS r) \<noteq> osStr \<and> OS_Name (Rule_OS r) \<noteq> [])
      \<longrightarrow> allowed osStr library = (Rule_Action rule = ''allow'')) \<and>
   (Library_Rules library \<noteq> [] \<and>
    (\<forall>r\<in>set (Library_Rules library). OS_Name (Rule_OS r) \<noteq> osStr \<and> OS_Name (Rule_OS r) \<noteq> [])
      \<longrightarrow> \<not> allowed osStr library) \<and>
   (OS_Name (Rule_OS other) \<noteq> osStr \<and> OS_Name (Rule_OS other) \<noteq> []
      \<longrightarrow> rulesLoop osStr a (other # rules) = rulesLoop osStr a rules) \<and>
   (Library_Rules library =
      [\<lparr>Rule_Action = ''allow'', Rule_OS = \<lparr>OS_Name = [], OS_Version = va\<rparr>\<rparr>,
       \<lparr>Rule_Action = ''deny'', Rule_OS = \<lparr>OS_Name = ''windows'', OS_Version = vb\<rparr>\<rparr>]
      \<longrightarrow> \<not> allowed ''windows'' library \<and> allowed ''linux'' library)"
proof (intro conjI impI)
  assume "Library_Rules library = []"
  then show "allowed osStr library" by (simp add: allowed_def)
next
  assume h: "Library_Rules library = before @ rule # after \<and>
    (OS_Name (Rule_OS rule) = osStr \<or> OS_Name (Rule_OS rule) = []) \<and>
    (\<forall>r\<in>set after. OS_Name (Rule_OS r) \<noteq> osStr \<and> OS_Name (Rule_OS r) \<noteq> [])"
  then have "ruleMatches osStr rule" and "\<forall>r\<in>set after. \<not> ruleMatches osStr r"
    by (simp_all add: ruleMatches_def)
  then have "rulesLoop osStr False (before @ rule # after) = (Rule_Action rule = allow)"
    by (rule rulesLoop_last_match)
  with h show "allowed osStr library = (Rule_Action rule = ''allow'')"
    by (simp add: allowed_def allow_def)
next
  assume h: "Library_Rules library \<noteq> [] \<and>
    (\<forall>r\<in>set (Library_Rules library). OS_Name (Rule_OS r) \<noteq> osStr \<and> OS_Name (Rule_OS r) \<noteq> [])"
  then have "\<forall>r\<in>set (Library_Rules library). \<not> ruleMatches osStr r"
    by (simp add: ruleMatches_def)
  then have "rulesLoop osStr False (Library_Rules library) = False"
    by (rule rulesLoop_no_match)
  with h show "\<not> allowed osStr library" by (simp add: allowed_def)
next
  assume "OS_Name (Rule_OS other) \<noteq> osStr \<and> OS_Name (Rule_OS other) \<noteq> []"
  then show "rulesLoop osStr a (other # rules) = rulesLoop osStr a rules"
    by (simp add: ruleMatches_def)
next
  assume h: "Library_Rules library =
      [\<lparr>Rule_Action = ''allow'', Rule_OS = \<lparr>OS_Name = [], OS_Version = va\<rparr>\<rparr>,
       \<lparr>Rule_Action = ''deny'', Rule_OS = \<lparr>OS_Name = ''windows'', OS_Version = vb\<rparr>\<rparr>]"
  show "\<not> allowed ''windows'' library" by (simp add: allowed_def h ruleMatches_def allow_def)
  show "allowed ''linux'' library" by (simp add: allowed_def h ruleMatches_def allow_def)
qed

theorem rule_evaluation_last_match_wins_witness:
  "allowed ''linux'' \<lparr>Library_Name = ''g:a:1'', Library_Rules = [],
      Library_Natives = Map.empty, Library_Extract = Map.empty\<rparr> \<and>
   \<not> allowed ''osx'' \<lparr>Library_Name = ''g:a:1'', Library_Rules =
      [\<lparr>Rule_Action = ''allow'', Rule_OS = \<lparr>OS_Name = ''osx'', OS_Version = []\<rparr>\<rparr>,
       \<lparr>Rule_Action = ''disallow'', Rule_OS = \<lparr>OS_Name = [], OS_Version = []\<rparr>\<rparr>,
       \<lparr>Rule_Action = ''allow'', Rule_OS = \<lparr>OS_Name = ''linux'', OS_Version = []\<rparr>\<rparr>],
      Library_Natives = Map.empty, Library_Extract = Map.empty\<rparr> \<and>
   \<not> allowed ''windows'' \<lparr>Library_Name = ''g:a:1'', Library_Rules =
      [\<lparr>Rule_Action = ''allow'', Rule_OS = \<lparr>OS_Name = ''linux'', OS_Version = []\<rparr>\<rparr>],
      Library_Natives = Map.empty, Library_Extract = Map.empty\<rparr> \<and>
   rulesLoop ''windows'' True
      [\<lparr>Rule_Action = ''deny'', Rule_OS = \<lparr>OS_Name = ''linux'', OS_Version = []\<rparr>\<rparr>] =
     rulesLoop ''windows'' True [] \<and>
   \<not> allowed ''windows'' \<lparr>Library_Name = ''g:a:1'', Library_Rules =
      [\<lparr>Rule_Action = ''allow'', Rule_OS = \<lparr>OS_Name = [], OS_Version = []\<rparr>\<rparr>,
       \<lparr>Rule_Action = ''deny'', Rule_OS = \<lparr>OS_Name = ''windows'', OS_Version = []\<rparr>\<rparr>],
      Library_Natives = Map.empty, Library_Extract = Map.empty\<rparr> \<and>
   allowed ''linux'' \<lparr>Library_Name = ''g:a:1'', Library_Rules =
      [\<lparr>Rule_Action = ''allow'', Rule_OS = \<lparr>OS_Name = [], OS_Version = []\<rparr>\<rparr>,
       \<lparr>Rule_Action = ''deny'', Rule_OS = \<lparr>OS_Name = ''windows'', OS_Version = []\<rparr>\<rparr>],
      Library_Natives = Map.empty, Library_Extract = Map.empty\<rparr>"
proof -
  let ?none = "\<lparr>Library_Name = ''g:a:1'', Library_Rules = [],
      Library_Natives = Map.empty, Library_Extract = Map.empty\<rparr>"
  let ?r1 = "\<lparr>Rule_Action = ''allow'', Rule_OS = \<lparr>OS_Name = ''osx'', OS_Version = []\<rparr>\<rparr>"
  let ?r2 = "\<lparr>Rule_Action = ''disallow'', Rule_OS = \<lparr>OS_Name = [], OS_Version = []\<rparr>\<rparr>"
  let ?r3 = "\<lparr>Rule_Action = ''allow'', Rule_OS = \<lparr>OS_Name = ''linux'', OS_Version = []\<rparr>\<rparr>"
  let ?r4 = "\<lparr>Rule_Action = ''deny'', Rule_OS = \<lparr>OS_Name = ''linux'', OS_Version = []\<rparr>\<rparr>"
  let ?three = "\<lparr>Library_Name = ''g:a:1'', Library_Rules = [?r1, ?r2, ?r3],
      Library_Natives = Map.empty, Library_Extract = Map.empty\<rparr>"
  let ?one = "\<lparr>Library_Name = ''g:a:1'', Library_Rules = [?r3],
      Library_Natives = Map.empty, Library_Extract = Map.empty\<rparr>"
  let ?two = "\<lparr>Library_Name = ''g:a:1'', Library_Rules =
      [\<lparr>Rule_Action = ''allow'', Rule_OS = \<lparr>OS_Name = [], OS_Version = []\<rparr>\<rparr>,
       \<lparr>Rule_Action = ''deny'', Rule_OS = \<lparr>OS_Name = ''windows'', OS_Version = []\<rparr>\<rparr>],
      Library_Natives = Map.empty, Library_Extract = Map.empty\<rparr>"
  have a: "allowed ''linux'' ?none"
    using rule_evaluation_last_match_wins [where osStr = "''linux''" and library = ?none]
    by simp
  have b: "\<not> allowed ''osx'' ?three"
    using rule_evaluation_last_match_wins [where osStr = "''osx''" and library = ?three
        and before = "[?r1]" and rule = ?r2 and after = "[?r3]"]
    by simp
  have c: "\<not> allowed ''windows'' ?one"
    using rule_evaluation_last_match_wins [where osStr = "''windows''" and library = ?one]
    by simp
  have d: "rulesLoop ''windows'' True [?r4] = rulesLoop ''windows'' True []"
    using rule_evaluation_last_match_wins [where osStr = "''windows''" and other = ?r4
        and a = True and rules = "[]"]
    by (simp del: rulesLoop.simps)
  have e: "\<not> allowed ''windows'' ?two \<and> allowed ''linux'' ?two"
    using rule_evaluation_last_match_wins [where va = "[]" and vb = "[]" and library = ?two]
    by simp
  from a b c d e show ?thesis by (simp del: rulesLoop.simps)
qed

text \<open>
  Claim C9. The rule's \<^verbatim>\<open>OS.Version\<close> has no influence: when the rules of one library
  are those of another with the version fields overwritten by any values \<open>vs\<close>, both
  libraries are allowed or both are not, on every platform.
\<close>

theorem rule_evaluation_ignores_version:
  "length vs = length (Library_Rules l1) \<Longrightarrow>
   Library_Rules l2 =
     map (\<lambda>(r, v). r\<lparr>Rule_OS := (Rule_OS r)\<lparr>OS_Version := v\<rparr>\<rparr>) (zip (Library_Rules l1) vs) \<Longrightarrow>
   allowed osStr l2 = allowed osStr l1"
  by (simp add: allowed_def rulesLoop_version)

theorem rule_evaluation_ignores_version_witness:
  "allowed ''linux'' \<lparr>Library_Name = ''g:a:1'', Library_Rules =
      [\<lparr>Rule_Action = ''allow'', Rule_OS = \<lparr>OS_Name = ''linux'', OS_Version = ''10.9''\<rparr>\<rparr>],
      Library_Natives = Map.empty, Library_Extract = Map.empty\<rparr> =
   allowed ''linux'' \<lparr>Library_Name = ''g:a:1'', Library_Rules =
      [\<lparr>Rule_Action = ''allow'', Rule_OS = \<lparr>OS_Name = ''linux'', OS_Version = []\<rparr>\<rparr>],
      Library_Natives = Map.empty, Library_Extract = Map.empty\<rparr>"
  using rule_evaluation_ignores_version [where osStr = "''linux''" and vs = "[''10.9'']"
    and ?l1.0 = "\<lparr>Library_Name = ''g:a:1'', Library_Rules =
      [\<lparr>Rule_Action = ''allow'', Rule_OS = \<lparr>OS_Name = ''linux'', OS_Version = []\<rparr>\<rparr>],
      Library_Natives = Map.empty, Library_Extract = Map.empty\<rparr>"
    and ?l2.0 = "\<lparr>Library_Name = ''g:a:1'', Library_Rules =
      [\<lparr>Rule_Action = ''allow'', Rule_OS = \<lparr>OS_Name = ''linux'', OS_Version = ''10.9''\<rparr>\<rparr>],
      Library_Natives = Map.empty, Library_Extract = Map.empty\<rparr>"]
  by simp

section \<open>Malformed coordinates\<close>

lemma resolveLibrary_colon:
  "CHR '':'' \<in> set name \<Longrightarrow> \<exists>r. resolveLibrary minecraftDir name native = Inr r"
  by (simp add: resolveLibrary_def strings_SplitN_2 Let_def)

lemma resolveLibrary_no_colon:
  "CHR '':'' \<notin> set name \<Longrightarrow>
   resolveLibrary minecraftDir name native = Inl (UnknownLibraryFormat name)"
  by (simp add: resolveLibrary_def strings_SplitN_2)

text \<open>
  Claim C7. Resolution fails, with the message \<^verbatim>\<open>unknown library format\<close> (the
  specification's \<open>MalformedCoordinate\<close>), exactly when \<^verbatim>\<open>strings.SplitN(name, ":", 2)\<close>
  does not give two pieces, which is exactly when the name has no colon; there is no
  other failure of the resolution. \<^verbatim>\<open>bad-format\<close> fails so, and for an allowed library
  the failure ends the run through \<^verbatim>\<open>fail\<close>.
\<close>

theorem malformed_coordinate_iff_no_colon:
  "((resolveLibrary minecraftDir name native = Inl (UnknownLibraryFormat name)) =
      (length (strings_SplitN name CHR '':'' 2) \<noteq> 2)) \<and>
   ((length (strings_SplitN name CHR '':'' 2) \<noteq> 2) = (CHR '':'' \<notin> set name)) \<and>
   ((\<exists>message. resolveLibrary minecraftDir name native = Inl message) =
      (CHR '':'' \<notin> set name)) \<and>
   resolveLibrary minecraftDir ''bad-format'' native = Inl (UnknownLibraryFormat ''bad-format'') \<and>
   (allowed osStr library \<and> CHR '':'' \<notin> set (Library_Name library) \<longrightarrow>
      processLibrary env minecraftDir nativesDir osStr st library =
        fail (UnknownLibraryFormat (Library_Name library)) (st_fs st))"
proof (intro conjI impI)
  show len: "(length (strings_SplitN name CHR '':'' 2) \<noteq> 2) = (CHR '':'' \<notin> set name)"
    by (simp add: strings_SplitN_2)
  show "(resolveLibrary minecraftDir name native = Inl (UnknownLibraryFormat name)) =
      (length (strings_SplitN name CHR '':'' 2) \<noteq> 2)"
    unfolding len using resolveLibrary_colon [of name minecraftDir native]
      resolveLibrary_no_colon [of name minecraftDir native] by auto
  show "(\<exists>message. resolveLibrary minecraftDir name native = Inl message) =
      (CHR '':'' \<notin> set name)"
    using resolveLibrary_colon [of name minecraftDir native]
      resolveLibrary_no_colon [of name minecraftDir native] by auto
  show "resolveLibrary minecraftDir ''bad-format'' native =
      Inl (UnknownLibraryFormat ''bad-format'')"
    by (rule resolveLibrary_no_colon) simp
next
  assume "allowed osStr library \<and> CHR '':'' \<notin> set (Library_Name library)"
  then show "processLibrary env minecraftDir nativesDir osStr st library =
        fail (UnknownLibraryFormat (Library_Name library)) (st_fs st)"
    by (simp add: processLibrary_def resolveLibrary_no_colon)
qed

theorem malformed_coordinate_iff_no_colon_witness:
  "resolveLibrary ''/home/x/.minecraft'' ''no.colon.here'' [] =
     Inl (UnknownLibraryFormat ''no.colon.here'') \<and>
   resolveLibrary ''/home/x/.minecraft'' ''com.example:lib'' [] \<noteq>
     Inl (UnknownLibraryFormat ''com.example:lib'') \<and>
   processLibrary
     \<lparr>sha1_Sum = \<lambda>bytes. [], zip_NewReader = \<lambda>bytes. None, java = \<lambda>args. Exited 0\<rparr>
     ''/home/x/.minecraft'' ''/home/x/.minecraft/versions/v/natives'' ''linux''
     \<lparr>st_fs = Map.empty, st_libraries = [], st_hash = []\<rparr>
     \<lparr>Library_Name = ''bad-format'', Library_Rules = [],
      Library_Natives = Map.empty, Library_Extract = Map.empty\<rparr> =
   Inl \<lparr>exit_status = 0, exit_message = UnknownLibraryFormat ''bad-format'',
        exit_fs = Map.empty\<rparr>"
proof -
  let ?lib = "\<lparr>Library_Name = ''bad-format'', Library_Rules = [],
      Library_Natives = Map.empty, Library_Extract = Map.empty\<rparr>"
  have a: "resolveLibrary ''/home/x/.minecraft'' ''no.colon.here'' [] =
     Inl (UnknownLibraryFormat ''no.colon.here'')"
    using malformed_coordinate_iff_no_colon [where name = "''no.colon.here''"
        and minecraftDir = "''/home/x/.minecraft''" and native = "[]"]
    by simp
  have b: "resolveLibrary ''/home/x/.minecraft'' ''com.example:lib'' [] \<noteq>
     Inl (UnknownLibraryFormat ''com.example:lib'')"
    using malformed_coordinate_iff_no_colon [where name = "''com.example:lib''"
        and minecraftDir = "''/home/x/.minecraft''" and native = "[]"]
    by simp
  have "allowed ''linux'' ?lib" by (simp add: allowed_def)
  then have c: "processLibrary
      \<lparr>sha1_Sum = \<lambda>bytes. [], zip_NewReader = \<lambda>bytes. None, java = \<lambda>args. Exited 0\<rparr>
      ''/home/x/.minecraft''
      ''/home/x/.minecraft/versions/v/natives'' ''linux''
      \<lparr>st_fs = Map.empty, st_libraries = [], st_hash = []\<rparr> ?lib =
      fail (UnknownLibraryFormat ''bad-format'') Map.empty"
    using malformed_coordinate_iff_no_colon [where library = ?lib and osStr = "''linux''"
        and env = "\<lparr>sha1_Sum = \<lambda>bytes. [], zip_NewReader = \<lambda>bytes. None, java = \<lambda>args. Exited 0\<rparr>" and minecraftDir = "''/home/x/.minecraft''"
        and nativesDir = "''/home/x/.minecraft/versions/v/natives''"
        and st = "\<lparr>st_fs = Map.empty, st_libraries = [], st_hash = []\<rparr>"]
    by simp
  from a b c show ?thesis by (simp add: fail_def)
qed

section \<open>Argument substitution\<close>

lemma substituteArg_length: "length (substituteArg md pd u p ma i) = length ma"
  by (simp add: substituteArg_def Let_def)

lemma substituteArg_nth:
  "i < length ma \<Longrightarrow> j < length ma \<Longrightarrow>
   substituteArg md pd u p ma i ! j =
     (if j = i then spec_replaceToken (runtimeContext md pd u p) (ma ! i) else ma ! j)"
  by (simp add: substituteArg_def spec_replaceToken_def runtimeContext_def Let_def)

lemma substitute_loop:
  "n \<le> length ma \<Longrightarrow>
   length (foldl (substituteArg md pd u p) ma [0..<n]) = length ma \<and>
   (\<forall>j<length ma. foldl (substituteArg md pd u p) ma [0..<n] ! j =
      (if j < n then spec_replaceToken (runtimeContext md pd u p) (ma ! j) else ma ! j))"
proof (induction n)
  case 0
  show ?case by simp
next
  case (Suc n)
  let ?prev = "foldl (substituteArg md pd u p) ma [0..<n]"
  from Suc have len: "length ?prev = length ma"
    and nth: "\<And>j. j < length ma \<Longrightarrow>
      ?prev ! j = (if j < n then spec_replaceToken (runtimeContext md pd u p) (ma ! j) else ma ! j)"
    by simp_all
  from Suc.prems have n: "n < length ma" by simp
  have step: "foldl (substituteArg md pd u p) ma [0..<Suc n] = substituteArg md pd u p ?prev n"
    by simp
  show ?case
  proof (intro conjI allI impI)
    show "length (foldl (substituteArg md pd u p) ma [0..<Suc n]) = length ma"
      by (simp only: step substituteArg_length len)
  next
    fix j assume j: "j < length ma"
    have "substituteArg md pd u p ?prev n ! j =
        (if j = n then spec_replaceToken (runtimeContext md pd u p) (?prev ! n) else ?prev ! j)"
      using n j len by (simp only: substituteArg_nth)
    with n j show "foldl (substituteArg md pd u p) ma [0..<Suc n] ! j =
        (if j < Suc n then spec_replaceToken (runtimeContext md pd u p) (ma ! j) else ma ! j)"
      by (simp only: step) (simp add: nth less_Suc_eq)
  qed
qed

lemma substituteArgs_map:
  "substituteArgs md pd u p Args =
     map (spec_replaceToken (runtimeContext md pd u p)) (strings_Split Args CHR '' '')"
  using substitute_loop [of "length (strings_Split Args CHR '' '')"
      "strings_Split Args CHR '' ''" md pd u p]
  by (intro nth_equalityI) (simp_all add: substituteArgs_def Let_def)

text \<open>
  Claim C5, as the specification states it, fails: the launcher splits the template at
  the space byte only (line 247), so a tab does not separate two tokens. The template
  \<^verbatim>\<open>-v<TAB>${version_name}\<close> is one token for the launcher and is passed through
  unchanged, where a split on whitespace gives \<^verbatim>\<open>-v\<close> and the version.
\<close>

theorem substitution_whitespace_counterexample:
  "substituteArgs ''/mc''
     \<lparr>Profiles = [''p'' \<mapsto> \<lparr>Profile_ID = ''1.7.10'', Profile_Args = []\<rparr>],
      SelectedProfile = ''p'',
      Users = [''u'' \<mapsto> \<lparr>User_Name = ''Alice'', User_AccessToken = ''tok''\<rparr>],
      SelectedUser = ''u''\<rparr> ''u'' ''p''
     (''-v'' @ [CHR 0x09] @ ''${version_name}'') =
     [''-v'' @ [CHR 0x09] @ ''${version_name}''] \<and>
   spec_substitute
     (runtimeContext ''/mc''
        \<lparr>Profiles = [''p'' \<mapsto> \<lparr>Profile_ID = ''1.7.10'', Profile_Args = []\<rparr>],
         SelectedProfile = ''p'',
         Users = [''u'' \<mapsto> \<lparr>User_Name = ''Alice'', User_AccessToken = ''tok''\<rparr>],
         SelectedUser = ''u''\<rparr> ''u'' ''p'')
     (''-v'' @ [CHR 0x09] @ ''${version_name}'') =
     [''-v'', ''1.7.10''] \<and>
   substituteArgs ''/mc''
     \<lparr>Profiles = [''p'' \<mapsto> \<lparr>Profile_ID = ''1.7.10'', Profile_Args = []\<rparr>],
      SelectedProfile = ''p'',
      Users = [''u'' \<mapsto> \<lparr>User_Name = ''Alice'', User_AccessToken = ''tok''\<rparr>],
      SelectedUser = ''u''\<rparr> ''u'' ''p''
     (''-v'' @ [CHR 0x09] @ ''${version_name}'') \<noteq>
   spec_substitute
     (runtimeContext ''/mc''
        \<lparr>Profiles = [''p'' \<mapsto> \<lparr>Profile_ID = ''1.7.10'', Profile_Args = []\<rparr>],
         SelectedProfile = ''p'',
         Users = [''u'' \<mapsto> \<lparr>User_Name = ''Alice'', User_AccessToken = ''tok''\<rparr>],
         SelectedUser = ''u''\<rparr> ''u'' ''p'')
     (''-v'' @ [CHR 0x09] @ ''${version_name}'')"
  by (simp add: substituteArgs_def substituteArg_def spec_substitute_def
      spec_splitWhitespace_def spec_isWhitespace_def spec_replaceToken_def
      runtimeContext_def mapIndex_def)

text \<open>
  Claim C5, amended. The template is split at every space byte: the tokens have no
  space in them and, joined with single spaces, give the template back (so two spaces
  in a row give an empty token, and no other byte separates tokens). Each token equal
  to one of the five placeholders is replaced as the table of the specification says,
  every other token is passed through unchanged.
\<close>

theorem substitution_splits_at_spaces:
  "substituteArgs minecraftDir profileData user profile Args =
     map (spec_replaceToken (runtimeContext minecraftDir profileData user profile))
       (strings_Split Args CHR '' '') \<and>
   strings_Join (strings_Split Args CHR '' '') '' '' = Args \<and>
   (\<forall>token\<in>set (strings_Split Args CHR '' ''). CHR '' '' \<notin> set token)"
  using strings_Split_pieces_no_sep [of _ Args "CHR '' ''"]
  by (auto simp: substituteArgs_map strings_Join_Split)

theorem substitution_splits_at_spaces_witness:
  "substituteArgs ''/home/x/game''
     \<lparr>Profiles = [''p'' \<mapsto> \<lparr>Profile_ID = ''1.7.10'', Profile_Args = []\<rparr>],
      SelectedProfile = ''p'',
      Users = [''u'' \<mapsto> \<lparr>User_Name = ''Alice'', User_AccessToken = ''tok''\<rparr>],
      SelectedUser = ''u''\<rparr> ''u'' ''p''
     ''--user ${auth_player_name}  ${auth_session} ${unknown_token} ${game_assets}'' =
   [''--user'', ''Alice'', [], ''token:tok:u'', ''${unknown_token}'',
    ''/home/x/game/assets/virtual/legacy'']"
  using substitution_splits_at_spaces [where minecraftDir = "''/home/x/game''"
      and profileData = "\<lparr>Profiles = [''p'' \<mapsto> \<lparr>Profile_ID = ''1.7.10'', Profile_Args = []\<rparr>],
        SelectedProfile = ''p'',
        Users = [''u'' \<mapsto> \<lparr>User_Name = ''Alice'', User_AccessToken = ''tok''\<rparr>],
        SelectedUser = ''u''\<rparr>"
      and user = "''u''" and profile = "''p''"
      and Args = "''--user ${auth_player_name}  ${auth_session} ${unknown_token} ${game_assets}''"]
  by (simp add: spec_replaceToken_def runtimeContext_def mapIndex_def path_Join_def
      path_Clean_def cleanElem_def)

text \<open>
  Claim C10. The substitution rewrites whole tokens, one by one: the result has as many
  tokens as the split template; equal tokens at any two positions of any two templates
  are rewritten to equal results, so that a result depends on the token at its own
  position only (and on the context); a token that is none of the five placeholders,
  such as \<^verbatim>\<open>x${auth_player_name}\<close>, is left as it is.
\<close>

theorem substitution_is_tokenwise:
  "length (substituteArgs minecraftDir profileData user profile Args) =
     length (strings_Split Args CHR '' '') \<and>
   (i < length (strings_Split Args CHR '' '') \<and> j < length (strings_Split Args' CHR '' '') \<and>
    strings_Split Args CHR '' '' ! i = strings_Split Args' CHR '' '' ! j \<longrightarrow>
      substituteArgs minecraftDir profileData user profile Args ! i =
      substituteArgs minecraftDir profileData user profile Args' ! j) \<and>
   (i < length (strings_Split Args CHR '' '') \<and>
    strings_Split Args CHR '' '' ! i \<notin>
      {''${auth_player_name}'', ''${auth_session}'', ''${version_name}'',
       ''${game_directory}'', ''${game_assets}''} \<longrightarrow>
      substituteArgs minecraftDir profileData user profile Args ! i =
      strings_Split Args CHR '' '' ! i) \<and>
   substituteArgs minecraftDir profileData user profile ''x${auth_player_name}'' =
     [''x${auth_player_name}'']"
  by (simp add: substituteArgs_map spec_replaceToken_def)

theorem substitution_is_tokenwise_witness:
  "substituteArgs ''/mc''
     \<lparr>Profiles = Map.empty, SelectedProfile = [],
      Users = [''u'' \<mapsto> \<lparr>User_Name = ''Alice'', User_AccessToken = ''tok''\<rparr>],
      SelectedUser = ''u''\<rparr> ''u'' ''p'' ''a ${auth_player_name}x b'' ! 1 =
     ''${auth_player_name}x'' \<and>
   substituteArgs ''/mc''
     \<lparr>Profiles = Map.empty, SelectedProfile = [],
      Users = [''u'' \<mapsto> \<lparr>User_Name = ''Alice'', User_AccessToken = ''tok''\<rparr>],
      SelectedUser = ''u''\<rparr> ''u'' ''p'' ''a ${auth_player_name}x b'' ! 2 =
   substituteArgs ''/mc''
     \<lparr>Profiles = Map.empty, SelectedProfile = [],
      Users = [''u'' \<mapsto> \<lparr>User_Name = ''Alice'', User_AccessToken = ''tok''\<rparr>],
      SelectedUser = ''u''\<rparr> ''u'' ''p'' ''b c'' ! 0"
proof -
  let ?pd = "\<lparr>Profiles = Map.empty, SelectedProfile = [],
      Users = [''u'' \<mapsto> \<lparr>User_Name = ''Alice'', User_AccessToken = ''tok''\<rparr>],
      SelectedUser = ''u''\<rparr>"
  have a: "substituteArgs ''/mc'' ?pd ''u'' ''p'' ''a ${auth_player_name}x b'' ! 1 =
      ''${auth_player_name}x''"
    using substitution_is_tokenwise [where minecraftDir = "''/mc''" and profileData = ?pd
        and user = "''u''" and profile = "''p''" and Args = "''a ${auth_player_name}x b''"
        and i = 1]
    by simp
  have b: "substituteArgs ''/mc'' ?pd ''u'' ''p'' ''a ${auth_player_name}x b'' ! 2 =
      substituteArgs ''/mc'' ?pd ''u'' ''p'' ''b c'' ! 0"
    using substitution_is_tokenwise [where minecraftDir = "''/mc''" and profileData = ?pd
        and user = "''u''" and profile = "''p''" and Args = "''a ${auth_player_name}x b''"
        and Args' = "''b c''" and i = 2 and j = 0]
    by simp
  from a b show ?thesis by simp
qed

section \<open>Signature verification\<close>

lemma signatureLoop_ok:
  "length signature = 40 \<Longrightarrow> n + length ds = 20 \<Longrightarrow>
   (signatureLoop fn signature fs n ds = Inr ()) =
   (\<forall>i<length ds. hex ! unat (drop_bit 4 (ds ! i)) = signature ! (2 * (n + i)) \<and>
                    hex ! unat (ds ! i AND 15) = signature ! (2 * (n + i) + 1))"
proof (induction ds arbitrary: n)
  case Nil
  show ?case by simp
next
  case (Cons d ds)
  from Cons.prems have n: "2 * n < 40" "2 * n + 1 < 40" and rest: "Suc n + length ds = 20"
    by simp_all
  show ?case
    using Cons.IH [OF Cons.prems(1) rest] n Cons.prems(1)
    by (simp add: All_less_Suc2 fail_def panic_def)
qed

lemma signatureLoop_Inl:
  "signatureLoop fn signature fs n ds = Inl e \<Longrightarrow> exit_fs e = fs"
  by (induction ds arbitrary: n) (auto simp: fail_def panic_def split: if_splits)

lemma signatureLoop_Inl_message:
  "length signature = 40 \<Longrightarrow> n + length ds = 20 \<Longrightarrow>
   signatureLoop fn signature fs n ds = Inl e \<Longrightarrow>
   e = \<lparr>exit_status = 0, exit_message = SignatureVerificationFailed fn signature, exit_fs = fs\<rparr>"
proof (induction ds arbitrary: n)
  case Nil
  then show ?case by simp
next
  case (Cons d ds)
  from Cons.prems have n: "2 * n < 40" "2 * n + 1 < 40" and rest: "Suc n + length ds = 20"
    by simp_all
  show ?case
    using Cons.IH [OF Cons.prems(1) rest] n Cons.prems
    by (auto simp: fail_def panic_def split: if_splits)
qed

lemma verifySignature_Inl_fs:
  "verifySignature env fs hash nativeLib filename = Inl e \<Longrightarrow> exit_fs e = fs"
  by (auto simp: verifySignature_def fail_def dest: signatureLoop_Inl
      split: option.splits sum.splits)

lemma verifySignature_Inr_iff:
  assumes "\<forall>bytes. length (sha1_Sum env bytes) = 20"
  shows "(verifySignature env fs hash nativeLib filename = Inr r) =
    (\<exists>sig bytes. fs (nativeLib @ sigExt) = Some (File sig) \<and> 40 \<le> length sig \<and>
       fs nativeLib = Some (File bytes) \<and> r = (bytes, []) \<and>
       (\<forall>i<20. hex ! unat (drop_bit 4 (sha1_Sum env (hash @ bytes) ! i)) = sig ! (2 * i) \<and>
                hex ! unat (sha1_Sum env (hash @ bytes) ! i AND 15) = sig ! (2 * i + 1)))"
proof -
  have loop: "(signatureLoop filename (take 40 sig) fs 0 (sha1_Sum env (hash @ bytes)) = Inr ()) =
      (\<forall>i<20. hex ! unat (drop_bit 4 (sha1_Sum env (hash @ bytes) ! i)) = sig ! (2 * i) \<and>
               hex ! unat (sha1_Sum env (hash @ bytes) ! i AND 15) = sig ! (2 * i + 1))"
    if "40 \<le> length sig" for sig bytes
    using that assms signatureLoop_ok [of "take 40 sig" 0 "sha1_Sum env (hash @ bytes)" filename fs]
    by simp
  show ?thesis
  proof
    assume "verifySignature env fs hash nativeLib filename = Inr r"
    then obtain sig bytes where h: "fs (nativeLib @ sigExt) = Some (File sig)" "40 \<le> length sig"
       "fs nativeLib = Some (File bytes)" "r = (bytes, [])"
       "signatureLoop filename (take 40 sig) fs 0 (sha1_Sum env (hash @ bytes)) = Inr ()"
      by (auto simp: verifySignature_def fail_def io_ReadFull_def io_ReadAll_def
          split: option.splits sum.splits node.splits if_splits)
    from h(5) loop [OF h(2)]
    have "\<forall>i<20. hex ! unat (drop_bit 4 (sha1_Sum env (hash @ bytes) ! i)) = sig ! (2 * i) \<and>
                hex ! unat (sha1_Sum env (hash @ bytes) ! i AND 15) = sig ! (2 * i + 1)"
      by blast
    with h show "\<exists>sig bytes. fs (nativeLib @ sigExt) = Some (File sig) \<and> 40 \<le> length sig \<and>
       fs nativeLib = Some (File bytes) \<and> r = (bytes, []) \<and>
       (\<forall>i<20. hex ! unat (drop_bit 4 (sha1_Sum env (hash @ bytes) ! i)) = sig ! (2 * i) \<and>
                hex ! unat (sha1_Sum env (hash @ bytes) ! i AND 15) = sig ! (2 * i + 1))"
      by blast
  next
    assume "\<exists>sig bytes. fs (nativeLib @ sigExt) = Some (File sig) \<and> 40 \<le> length sig \<and>
       fs nativeLib = Some (File bytes) \<and> r = (bytes, []) \<and>
       (\<forall>i<20. hex ! unat (drop_bit 4 (sha1_Sum env (hash @ bytes) ! i)) = sig ! (2 * i) \<and>
                hex ! unat (sha1_Sum env (hash @ bytes) ! i AND 15) = sig ! (2 * i + 1))"
    then obtain sig bytes where h: "fs (nativeLib @ sigExt) = Some (File sig)" "40 \<le> length sig"
       "fs nativeLib = Some (File bytes)" "r = (bytes, [])"
       "signatureLoop filename (take 40 sig) fs 0 (sha1_Sum env (hash @ bytes)) = Inr ()"
      using loop by blast
    then show "verifySignature env fs hash nativeLib filename = Inr r"
      by (simp add: verifySignature_def io_ReadFull_def io_ReadAll_def)
  qed
qed

lemma verifySignature_Inr_hash:
  "verifySignature env fs hash nativeLib filename = Inr (bytes, hash') \<Longrightarrow> hash' = []"
  by (auto simp: verifySignature_def fail_def split: option.splits sum.splits)

lemma processLibrary_native:
  assumes "allowed osStr library"
    and "mapIndex [] (Library_Natives library) osStr \<noteq> []"
    and "resolveLibrary minecraftDir (Library_Name library)
           (mapIndex [] (Library_Natives library) osStr) = Inr (filename, nativeLib)"
  shows "processLibrary env minecraftDir nativesDir osStr st library =
    (case verifySignature env (st_fs st) (st_hash st) nativeLib filename of
       Inl e \<Rightarrow> Inl e
     | Inr (bytes, hash') \<Rightarrow>
         (case extractNative env nativesDir
                 (mapIndex [] (Library_Extract library) ''exclude'') (st_fs st) bytes of
            Inl e \<Rightarrow> Inl e
          | Inr fs' \<Rightarrow> Inr (st\<lparr>st_fs := fs', st_hash := hash'\<rparr>)))"
  using assms by (simp add: processLibrary_def)

lemma processLibrary_hash:
  "processLibrary env minecraftDir nativesDir osStr st library = Inr st' \<Longrightarrow>
   st_hash st = [] \<Longrightarrow> st_hash st' = []"
  by (auto simp: processLibrary_def fail_def dest: verifySignature_Inr_hash
      split: if_splits sum.splits prod.splits)

lemma libraryLoop_hash:
  "libraryLoop env minecraftDir nativesDir osStr st libs = Inr st' \<Longrightarrow>
   st_hash st = [] \<Longrightarrow> st_hash st' = []"
proof (induction libs arbitrary: st)
  case Nil
  then show ?case by simp
next
  case (Cons library libs)
  then show ?case
    by (auto split: sum.splits dest: processLibrary_hash)
qed

lemma libraryLoop_append:
  "libraryLoop env minecraftDir nativesDir osStr st (xs @ ys) =
     (case libraryLoop env minecraftDir nativesDir osStr st xs of
        Inl e \<Rightarrow> Inl e
      | Inr st' \<Rightarrow> libraryLoop env minecraftDir nativesDir osStr st' ys)"
  by (induction xs arbitrary: st) (auto split: sum.splits)

lemma main_aborted:
  "libraryLoop env minecraftDir (nativesDir_of minecraftDir profileData profile) (osStr_of goos)
     \<lparr>st_fs = os_Mkdir fs (nativesDir_of minecraftDir profileData profile),
      st_libraries = [], st_hash = []\<rparr>
     (LaunchConfig_Libraries launchConfig) = Inl e \<Longrightarrow>
   main env goos minecraftDir profileData user profile launchConfig fs =
     \<lparr>status = exit_status e, messages = [exit_message e], command = None,
      final_fs = exit_fs e\<rparr>"
  by (simp add: main_def Let_def)

lemma main_supervised:
  "libraryLoop env minecraftDir (nativesDir_of minecraftDir profileData profile) (osStr_of goos)
     \<lparr>st_fs = os_Mkdir fs (nativesDir_of minecraftDir profileData profile),
      st_libraries = [], st_hash = []\<rparr>
     (LaunchConfig_Libraries launchConfig) = Inr st \<Longrightarrow>
   main env goos minecraftDir profileData user profile launchConfig fs =
     supervise env (nativesDir_of minecraftDir profileData profile)
       (assembleArgs (nativesDir_of minecraftDir profileData profile)
          (st_libraries st @
            [path_Join [versionDir_of minecraftDir profileData profile,
               Profile_ID (mapIndex zeroProfile (Profiles profileData) profile) @ jarExt]])
          (LaunchConfig_Class launchConfig)
          (substituteArgs minecraftDir profileData user profile (LaunchConfig_Args launchConfig)))
       (st_fs st)"
  by (simp add: main_def Let_def)

text \<open>
  Claim C2. For a native library that the loop reaches in state \<open>st\<close>: the hash object
  is empty then, so that the digest is that of the archive's bytes alone; the
  verification succeeds exactly when the signature file is a file of at least 40
  bytes, the archive is a readable file, and for each of the 20 bytes of the archive's
  SHA-1 digest the lower-case hexadecimal digit of its high half is byte \<open>2i\<close> of the
  signature file and that of its low half is byte \<open>2i + 1\<close> (only the first 40 bytes of
  the signature file are looked at). Otherwise the run ends there: no command is
  assembled, and the file system is as it was when the library was reached, so nothing
  of the archive has been extracted. Extraction happens only after a successful
  verification.
\<close>

theorem signature_verification:
  assumes "\<forall>bytes. length (sha1_Sum env bytes) = 20"
    and "LaunchConfig_Libraries launchConfig = before @ library # rest"
    and "libraryLoop env minecraftDir (nativesDir_of minecraftDir profileData profile)
           (osStr_of goos)
           \<lparr>st_fs = os_Mkdir fs (nativesDir_of minecraftDir profileData profile),
            st_libraries = [], st_hash = []\<rparr> before = Inr st"
    and "allowed (osStr_of goos) library"
    and "mapIndex [] (Library_Natives library) (osStr_of goos) \<noteq> []"
    and "resolveLibrary minecraftDir (Library_Name library)
           (mapIndex [] (Library_Natives library) (osStr_of goos)) = Inr (filename, nativeLib)"
  shows
    "st_hash st = [] \<and>
     ((\<exists>r. verifySignature env (st_fs st) (st_hash st) nativeLib filename = Inr r) =
      (\<exists>sig bytes.
         st_fs st (nativeLib @ sigExt) = Some (File sig) \<and> 40 \<le> length sig \<and>
         st_fs st nativeLib = Some (File bytes) \<and>
         (\<forall>i<20. hex ! unat (drop_bit 4 (sha1_Sum env bytes ! i)) = sig ! (2 * i) \<and>
                  hex ! unat (sha1_Sum env bytes ! i AND 15) = sig ! (2 * i + 1)))) \<and>
     ((\<nexists>r. verifySignature env (st_fs st) (st_hash st) nativeLib filename = Inr r) \<longrightarrow>
        (\<exists>e. processLibrary env minecraftDir (nativesDir_of minecraftDir profileData profile)
               (osStr_of goos) st library = Inl e \<and>
             exit_fs e = st_fs st \<and>
             main env goos minecraftDir profileData user profile launchConfig fs =
               \<lparr>status = exit_status e, messages = [exit_message e], command = None,
                final_fs = st_fs st\<rparr>)) \<and>
     (\<forall>st'. processLibrary env minecraftDir (nativesDir_of minecraftDir profileData profile)
               (osStr_of goos) st library = Inr st' \<longrightarrow>
        (\<exists>bytes. verifySignature env (st_fs st) (st_hash st) nativeLib filename =
                    Inr (bytes, []) \<and>
                  extractNative env (nativesDir_of minecraftDir profileData profile)
                    (mapIndex [] (Library_Extract library) ''exclude'') (st_fs st) bytes =
                    Inr (st_fs st')))"
proof -
  let ?nd = "nativesDir_of minecraftDir profileData profile"
  let ?st0 = "\<lparr>st_fs = os_Mkdir fs ?nd, st_libraries = [], st_hash = []\<rparr>"
  let ?V = "verifySignature env (st_fs st) (st_hash st) nativeLib filename"
  have hash: "st_hash st = []"
    using libraryLoop_hash [OF assms(3)] by simp
  have iff: "(\<exists>r. ?V = Inr r) =
      (\<exists>sig bytes.
         st_fs st (nativeLib @ sigExt) = Some (File sig) \<and> 40 \<le> length sig \<and>
         st_fs st nativeLib = Some (File bytes) \<and>
         (\<forall>i<20. hex ! unat (drop_bit 4 (sha1_Sum env bytes ! i)) = sig ! (2 * i) \<and>
                  hex ! unat (sha1_Sum env bytes ! i AND 15) = sig ! (2 * i + 1)))"
    unfolding verifySignature_Inr_iff [OF assms(1)] hash by auto
  have process: "processLibrary env minecraftDir ?nd (osStr_of goos) st library =
      (case ?V of
         Inl e \<Rightarrow> Inl e
       | Inr (bytes, hash') \<Rightarrow>
           (case extractNative env ?nd
                   (mapIndex [] (Library_Extract library) ''exclude'') (st_fs st) bytes of
              Inl e \<Rightarrow> Inl e
            | Inr fs' \<Rightarrow> Inr (st\<lparr>st_fs := fs', st_hash := hash'\<rparr>)))"
    by (rule processLibrary_native [OF assms(4) assms(5) assms(6)])
  have abort: "\<exists>e. processLibrary env minecraftDir ?nd (osStr_of goos) st library = Inl e \<and>
        exit_fs e = st_fs st \<and>
        main env goos minecraftDir profileData user profile launchConfig fs =
          \<lparr>status = exit_status e, messages = [exit_message e], command = None,
           final_fs = st_fs st\<rparr>"
    if no: "\<nexists>r. ?V = Inr r"
  proof -
    from no obtain e where e: "?V = Inl e" by (cases ?V) auto
    then have fs: "exit_fs e = st_fs st" by (rule verifySignature_Inl_fs)
    from e have p: "processLibrary env minecraftDir ?nd (osStr_of goos) st library = Inl e"
      by (simp add: process)
    have "libraryLoop env minecraftDir ?nd (osStr_of goos) ?st0
        (LaunchConfig_Libraries launchConfig) = Inl e"
      by (simp add: assms(2) libraryLoop_append assms(3) p)
    from main_aborted [OF this] fs p show ?thesis by simp
  qed
  have after: "\<exists>bytes. ?V = Inr (bytes, []) \<and>
        extractNative env ?nd (mapIndex [] (Library_Extract library) ''exclude'')
          (st_fs st) bytes = Inr (st_fs st')"
    if "processLibrary env minecraftDir ?nd (osStr_of goos) st library = Inr st'" for st'
    using that unfolding process
    by (auto split: sum.splits prod.splits dest: verifySignature_Inr_hash)
  from hash iff abort after show ?thesis by blast
qed

theorem signature_verification_witness:
  "\<not> (\<exists>i<20.
      hex ! unat (drop_bit 4 ([3, 3, 3, 3, 3, 3, 3, 3, 3, 3, 3, 3, 3, 3, 3, 3, 3, 3, 3, 3 :: byte] ! i)) \<noteq>
        [48, 51, 48, 51, 48, 51, 48, 51, 48, 51, 48, 51, 48, 51, 48, 51, 48, 51, 48, 51,
         48, 51, 48, 51, 48, 51, 48, 51, 48, 51, 48, 51, 48, 51, 48, 51, 48, 51, 48, 51, 10] ! (2 * i) \<or>
      hex ! unat ([3, 3, 3, 3, 3, 3, 3, 3, 3, 3, 3, 3, 3, 3, 3, 3, 3, 3, 3, 3 :: byte] ! i AND 15) \<noteq>
        [48, 51, 48, 51, 48, 51, 48, 51, 48, 51, 48, 51, 48, 51, 48, 51, 48, 51, 48, 51,
         48, 51, 48, 51, 48, 51, 48, 51, 48, 51, 48, 51, 48, 51, 48, 51, 48, 51, 48, 51, 10] ! (2 * i + 1)) \<and>
   command (main
     \<lparr>sha1_Sum = \<lambda>bytes. [sum_list bytes, 3, 3, 3, 3, 3, 3, 3, 3, 3, 3, 3, 3, 3, 3, 3, 3, 3, 3, 3],
      zip_NewReader = \<lambda>bytes. Some [], java = \<lambda>args. Exited 0\<rparr>
     ''linux'' ''/mc''
     \<lparr>Profiles = [''p'' \<mapsto> \<lparr>Profile_ID = ''v'', Profile_Args = []\<rparr>], SelectedProfile = ''p'',
      Users = [''u'' \<mapsto> \<lparr>User_Name = ''Alice'', User_AccessToken = ''tok''\<rparr>],
      SelectedUser = ''u''\<rparr>
     ''u'' ''p''
     \<lparr>LaunchConfig_Args = [], LaunchConfig_Libraries =
        [\<lparr>Library_Name = ''g:a:1'', Library_Rules = [],
          Library_Natives = [''linux'' \<mapsto> ''n''], Library_Extract = Map.empty\<rparr>],
      LaunchConfig_Class = ''M''\<rparr>
     [''/mc/libraries/g/a/1/a-1-n.jar'' \<mapsto> File [1, 3],
      ''/mc/libraries/g/a/1/a-1-n.jar.sha'' \<mapsto> File
        [48, 51, 48, 51, 48, 51, 48, 51, 48, 51, 48, 51, 48, 51, 48, 51, 48, 51, 48, 51,
         48, 51, 48, 51, 48, 51, 48, 51, 48, 51, 48, 51, 48, 51, 48, 51, 48, 51, 48, 51, 10]])
   = None"
proof -
  let ?env = "\<lparr>sha1_Sum = \<lambda>bytes. [sum_list bytes, 3, 3, 3, 3, 3, 3, 3, 3, 3, 3, 3, 3, 3, 3, 3, 3, 3, 3, 3],
      zip_NewReader = \<lambda>bytes. Some [], java = \<lambda>args. Exited 0\<rparr>"
  let ?pd = "\<lparr>Profiles = [''p'' \<mapsto> \<lparr>Profile_ID = ''v'', Profile_Args = []\<rparr>], SelectedProfile = ''p'',
      Users = [''u'' \<mapsto> \<lparr>User_Name = ''Alice'', User_AccessToken = ''tok''\<rparr>],
      SelectedUser = ''u''\<rparr>"
  let ?lib = "\<lparr>Library_Name = ''g:a:1'', Library_Rules = [],
          Library_Natives = [''linux'' \<mapsto> ''n''], Library_Extract = Map.empty\<rparr>"
  let ?lc = "\<lparr>LaunchConfig_Args = [], LaunchConfig_Libraries = [?lib], LaunchConfig_Class = ''M''\<rparr>"
  let ?sig = "[48, 51, 48, 51, 48, 51, 48, 51, 48, 51, 48, 51, 48, 51, 48, 51, 48, 51, 48, 51,
         48, 51, 48, 51, 48, 51, 48, 51, 48, 51, 48, 51, 48, 51, 48, 51, 48, 51, 48, 51, 10 :: byte]"
  let ?good = "[''/mc/libraries/g/a/1/a-1-n.jar'' \<mapsto> File [1, 2],
      ''/mc/libraries/g/a/1/a-1-n.jar.sha'' \<mapsto> File ?sig]"
  let ?bad = "[''/mc/libraries/g/a/1/a-1-n.jar'' \<mapsto> File [1, 3],
      ''/mc/libraries/g/a/1/a-1-n.jar.sha'' \<mapsto> File ?sig]"
  let ?nd = "nativesDir_of ''/mc'' ?pd ''p''"
  have size: "\<forall>bytes. length (sha1_Sum ?env bytes) = 20" by simp
  have libs: "LaunchConfig_Libraries ?lc = [] @ ?lib # []" by simp
  have allowed: "allowed (osStr_of ''linux'') ?lib" by (simp add: allowed_def)
  have native: "mapIndex [] (Library_Natives ?lib) (osStr_of ''linux'') \<noteq> []"
    by (simp add: mapIndex_def osStr_of_def)
  have resolve: "resolveLibrary ''/mc'' (Library_Name ?lib)
      (mapIndex [] (Library_Natives ?lib) (osStr_of ''linux'')) =
      Inr (''a-1-n.jar'', ''/mc/libraries/g/a/1/a-1-n.jar'')"
    by (simp add: mapIndex_def osStr_of_def resolveLibrary_def numeral_2_eq_2 jarExt_def Let_def
        libraryDir_def path_Join_def path_Clean_def cleanElem_def)
  have nd: "?nd = ''/mc/versions/v/natives''"
    by (simp add: nativesDir_of_def versionDir_of_def versionsDir_def mapIndex_def
        path_Join_def path_Clean_def cleanElem_def)
  have mkdir_good: "os_Mkdir ?good ?nd = ?good"
    unfolding nd by (simp add: os_Mkdir_def parentOf_def)
  have mkdir_bad: "os_Mkdir ?bad ?nd = ?bad"
    unfolding nd by (simp add: os_Mkdir_def parentOf_def)
  have reach_good: "libraryLoop ?env ''/mc'' ?nd (osStr_of ''linux'')
      \<lparr>st_fs = os_Mkdir ?good ?nd, st_libraries = [], st_hash = []\<rparr> [] =
      Inr \<lparr>st_fs = ?good, st_libraries = [], st_hash = []\<rparr>"
    by (simp only: mkdir_good libraryLoop.simps)
  have reach_bad: "libraryLoop ?env ''/mc'' ?nd (osStr_of ''linux'')
      \<lparr>st_fs = os_Mkdir ?bad ?nd, st_libraries = [], st_hash = []\<rparr> [] =
      Inr \<lparr>st_fs = ?bad, st_libraries = [], st_hash = []\<rparr>"
    by (simp only: mkdir_bad libraryLoop.simps)
  have ok: "\<exists>r. verifySignature ?env ?good [] ''/mc/libraries/g/a/1/a-1-n.jar'' ''a-1-n.jar'' = Inr r"
    by (simp add: verifySignature_def sigExt_def io_ReadFull_def io_ReadAll_def hex_def
        fail_def panic_def)
  have ko: "\<nexists>r. verifySignature ?env ?bad [] ''/mc/libraries/g/a/1/a-1-n.jar'' ''a-1-n.jar'' = Inr r"
    by (simp add: verifySignature_def sigExt_def io_ReadFull_def io_ReadAll_def hex_def
        fail_def panic_def)
  have a: "\<forall>i<20.
      hex ! unat (drop_bit 4 ([3, 3, 3, 3, 3, 3, 3, 3, 3, 3, 3, 3, 3, 3, 3, 3, 3, 3, 3, 3 :: byte] ! i)) =
        ?sig ! (2 * i) \<and>
      hex ! unat ([3, 3, 3, 3, 3, 3, 3, 3, 3, 3, 3, 3, 3, 3, 3, 3, 3, 3, 3, 3 :: byte] ! i AND 15) =
        ?sig ! (2 * i + 1)"
    using signature_verification [OF size libs reach_good allowed native resolve,
        where user = "''u''"] ok
    by (simp add: sigExt_def)
  have b: "command (main ?env ''linux'' ''/mc'' ?pd ''u'' ''p'' ?lc ?bad) = None"
    using signature_verification [OF size libs reach_bad allowed native resolve,
        where user = "''u''"] ko
    by auto
  from a b show ?thesis by blast
qed

section \<open>Extraction\<close>













section \<open>Assembly and supervision\<close>

lemma processLibrary_libraries:
  assumes "processLibrary env minecraftDir nativesDir osStr st library = Inr st'"
  shows "st_libraries st' = st_libraries st @
     [p. allowed osStr library \<and> mapIndex [] (Library_Natives library) osStr = [],
         Inr (filename, p) \<leftarrow> [resolveLibrary minecraftDir (Library_Name library) []]]"
proof (cases "allowed osStr library")
  case False
  with assms show ?thesis by (simp add: processLibrary_def)
next
  case True
  show ?thesis
  proof (cases "resolveLibrary minecraftDir (Library_Name library)
      (mapIndex [] (Library_Natives library) osStr)")
    case (Inl message)
    with True assms show ?thesis by (simp add: processLibrary_def fail_def)
  next
    case (Inr r)
    obtain filename libPath where r: "r = (filename, libPath)" by (cases r)
    show ?thesis
    proof (cases "mapIndex [] (Library_Natives library) osStr = []")
      case True
      with \<open>allowed osStr library\<close> Inr r assms show ?thesis
        by (simp add: processLibrary_def) auto
    next
      case False
      from assms have "st_libraries st' = st_libraries st"
        unfolding processLibrary_native [OF \<open>allowed osStr library\<close> False Inr [unfolded r]]
        by (cases "verifySignature env (st_fs st) (st_hash st) libPath filename")
           (auto split: sum.splits)
      with False show ?thesis by simp
    qed
  qed
qed

lemma libraryLoop_libraries:
  "libraryLoop env minecraftDir nativesDir osStr st libs = Inr st' \<Longrightarrow>
   st_libraries st' = st_libraries st @
     [p. library \<leftarrow> libs,
         allowed osStr library \<and> mapIndex [] (Library_Natives library) osStr = [],
         Inr (filename, p) \<leftarrow> [resolveLibrary minecraftDir (Library_Name library) []]]"
proof (induction libs arbitrary: st)
  case Nil
  then show ?case by simp
next
  case (Cons library libs)
  from Cons.prems obtain st1 where
    p: "processLibrary env minecraftDir nativesDir osStr st library = Inr st1"
    and l: "libraryLoop env minecraftDir nativesDir osStr st1 libs = Inr st'"
    by (auto split: sum.splits)
  from Cons.IH [OF l] processLibrary_libraries [OF p] show ?case by simp
qed

lemma supervise_command: "command (supervise env nativesDir args fs) = Some args"
  by (simp add: supervise_def os_RemoveAll_def split: child.splits)

lemma supervise_status: "status (supervise env nativesDir args fs) = 0"
  by (simp add: supervise_def os_RemoveAll_def split: child.splits)

lemma supervise_exited:
  "java env args = Exited code \<Longrightarrow>
   supervise env nativesDir args fs =
     \<lparr>status = 0, messages = [], command = Some args,
      final_fs = (\<lambda>p. if p = nativesDir \<or> prefix (nativesDir @ ''/'') p then None else fs p)\<rparr>"
  by (simp add: supervise_def os_RemoveAll_def)

lemma processLibrary_env:
  assumes "sha1_Sum env' = sha1_Sum env" and "zip_NewReader env' = zip_NewReader env"
  shows "processLibrary env' minecraftDir nativesDir osStr st library =
    processLibrary env minecraftDir nativesDir osStr st library"
  unfolding processLibrary_def verifySignature_def extractNative_def assms ..

lemma libraryLoop_env:
  assumes "sha1_Sum env' = sha1_Sum env" and "zip_NewReader env' = zip_NewReader env"
  shows "libraryLoop env' minecraftDir nativesDir osStr st libs =
    libraryLoop env minecraftDir nativesDir osStr st libs"
proof (induction libs arbitrary: st)
  case Nil
  show ?case by simp
next
  case (Cons library libs)
  show ?case
    unfolding libraryLoop.simps processLibrary_env [OF assms] Cons.IH ..
qed

lemma main_command:
  assumes "command (main env goos minecraftDir profileData user profile launchConfig fs) = Some args"
  shows "\<exists>st. libraryLoop env minecraftDir (nativesDir_of minecraftDir profileData profile)
          (osStr_of goos)
          \<lparr>st_fs = os_Mkdir fs (nativesDir_of minecraftDir profileData profile),
           st_libraries = [], st_hash = []\<rparr>
          (LaunchConfig_Libraries launchConfig) = Inr st \<and>
        args = assembleArgs (nativesDir_of minecraftDir profileData profile)
          (st_libraries st @
            [path_Join [versionDir_of minecraftDir profileData profile,
               Profile_ID (mapIndex zeroProfile (Profiles profileData) profile) @ jarExt]])
          (LaunchConfig_Class launchConfig)
          (substituteArgs minecraftDir profileData user profile (LaunchConfig_Args launchConfig))"
proof (cases "libraryLoop env minecraftDir (nativesDir_of minecraftDir profileData profile)
          (osStr_of goos)
          \<lparr>st_fs = os_Mkdir fs (nativesDir_of minecraftDir profileData profile),
           st_libraries = [], st_hash = []\<rparr>
          (LaunchConfig_Libraries launchConfig)")
  case (Inl e)
  from main_aborted [OF Inl, of user] assms show ?thesis by simp
next
  case (Inr st)
  from main_supervised [OF Inr, of user] assms have
    "args = assembleArgs (nativesDir_of minecraftDir profileData profile)
          (st_libraries st @
            [path_Join [versionDir_of minecraftDir profileData profile,
               Profile_ID (mapIndex zeroProfile (Profiles profileData) profile) @ jarExt]])
          (LaunchConfig_Class launchConfig)
          (substituteArgs minecraftDir profileData user profile (LaunchConfig_Args launchConfig))"
    by (simp only: supervise_command option.inject)
  with Inr show ?thesis by blast
qed

lemma main_no_libraries:
  "LaunchConfig_Libraries launchConfig = [] \<Longrightarrow>
   main env goos minecraftDir profileData user profile launchConfig fs =
     supervise env (nativesDir_of minecraftDir profileData profile)
       (assembleArgs (nativesDir_of minecraftDir profileData profile)
          [path_Join [versionDir_of minecraftDir profileData profile,
             Profile_ID (mapIndex zeroProfile (Profiles profileData) profile) @ jarExt]]
          (LaunchConfig_Class launchConfig)
          (substituteArgs minecraftDir profileData user profile (LaunchConfig_Args launchConfig)))
       (os_Mkdir fs (nativesDir_of minecraftDir profileData profile))"
  by (simp add: main_def Let_def)

text \<open>
  Claim C6, as the specification states it, fails on Windows: the launcher joins the
  class path with \<^verbatim>\<open>:\<close> on every platform (line 243), where the platform's separator
  is \<^verbatim>\<open>;\<close>. For one ordinary library the eighth argument is the two paths with a colon
  between them.
\<close>

theorem classpath_separator_counterexample:
  "the (command (main
     \<lparr>sha1_Sum = \<lambda>bytes. [], zip_NewReader = \<lambda>bytes. None, java = \<lambda>args. Exited 0\<rparr>
     ''windows'' ''/mc''
     \<lparr>Profiles = [''p'' \<mapsto> \<lparr>Profile_ID = ''v'', Profile_Args = []\<rparr>], SelectedProfile = ''p'',
      Users = [''u'' \<mapsto> \<lparr>User_Name = ''Alice'', User_AccessToken = ''tok''\<rparr>],
      SelectedUser = ''u''\<rparr>
     ''u'' ''p''
     \<lparr>LaunchConfig_Args = ''--user ${auth_player_name}'', LaunchConfig_Libraries =
        [\<lparr>Library_Name = ''g:a:1'', Library_Rules = [],
          Library_Natives = Map.empty, Library_Extract = Map.empty\<rparr>],
      LaunchConfig_Class = ''M''\<rparr>
     Map.empty)) ! 7 = ''/mc/libraries/g/a/1/a-1.jar:/mc/versions/v/v.jar'' \<and>
   ''/mc/libraries/g/a/1/a-1.jar:/mc/versions/v/v.jar'' \<noteq>
     strings_Join [''/mc/libraries/g/a/1/a-1.jar'', ''/mc/versions/v/v.jar'']
       (spec_pathListSeparator ''windows'')"
proof -
  let ?env = "\<lparr>sha1_Sum = \<lambda>bytes. [], zip_NewReader = \<lambda>bytes. None, java = \<lambda>args. Exited 0\<rparr>"
  let ?pd = "\<lparr>Profiles = [''p'' \<mapsto> \<lparr>Profile_ID = ''v'', Profile_Args = []\<rparr>], SelectedProfile = ''p'',
      Users = [''u'' \<mapsto> \<lparr>User_Name = ''Alice'', User_AccessToken = ''tok''\<rparr>],
      SelectedUser = ''u''\<rparr>"
  let ?lib = "\<lparr>Library_Name = ''g:a:1'', Library_Rules = [],
          Library_Natives = Map.empty, Library_Extract = Map.empty\<rparr>"
  let ?lc = "\<lparr>LaunchConfig_Args = ''--user ${auth_player_name}'',
      LaunchConfig_Libraries = [?lib], LaunchConfig_Class = ''M''\<rparr>"
  let ?nd = "nativesDir_of ''/mc'' ?pd ''p''"
  have vd: "versionDir_of ''/mc'' ?pd ''p'' = ''/mc/versions/v''"
    by (simp add: versionDir_of_def versionsDir_def mapIndex_def
        path_Join_def path_Clean_def cleanElem_def)
  have jar: "path_Join [''/mc/versions/v'', ''v.jar''] = ''/mc/versions/v/v.jar''"
    by (simp add: path_Join_def path_Clean_def cleanElem_def)
  have res: "resolveLibrary ''/mc'' ''g:a:1'' [] = Inr (''a-1.jar'', ''/mc/libraries/g/a/1/a-1.jar'')"
    by (simp add: resolveLibrary_def numeral_2_eq_2 jarExt_def Let_def
        libraryDir_def path_Join_def path_Clean_def cleanElem_def)
  have "processLibrary ?env ''/mc'' ?nd (osStr_of ''windows'')
      \<lparr>st_fs = os_Mkdir Map.empty ?nd, st_libraries = [], st_hash = []\<rparr> ?lib =
      Inr \<lparr>st_fs = os_Mkdir Map.empty ?nd,
           st_libraries = [''/mc/libraries/g/a/1/a-1.jar''], st_hash = []\<rparr>"
    by (simp add: processLibrary_def allowed_def mapIndex_def res)
  then have "libraryLoop ?env ''/mc'' ?nd (osStr_of ''windows'')
      \<lparr>st_fs = os_Mkdir Map.empty ?nd, st_libraries = [], st_hash = []\<rparr>
      (LaunchConfig_Libraries ?lc) =
      Inr \<lparr>st_fs = os_Mkdir Map.empty ?nd,
           st_libraries = [''/mc/libraries/g/a/1/a-1.jar''], st_hash = []\<rparr>"
    by simp
  from main_supervised [OF this, of "''u''"]
  have "the (command (main ?env ''windows'' ''/mc'' ?pd ''u'' ''p'' ?lc Map.empty)) ! 7 =
      ''/mc/libraries/g/a/1/a-1.jar:/mc/versions/v/v.jar''"
    by (simp add: supervise_command assembleArgs_def vd jar mapIndex_def jarExt_def)
  then show ?thesis by (simp add: spec_pathListSeparator_def)
qed

text \<open>
  Claim C6, amended. When a command is handed to \<^verbatim>\<open>exec.Command\<close>, its arguments are,
  in this order: the five fixed flags; \<^verbatim>\<open>-Djava.library.path=\<close> with the scratch
  directory of the natives; \<^verbatim>\<open>-cp\<close>; the paths of the allowed libraries without a
  native entry for the platform, in the order of the manifest, followed by the
  version's own archive, all joined with a colon whatever the platform is; the main
  class of the manifest; the substituted arguments.
\<close>

theorem launch_argument_vector:
  "command (main env goos minecraftDir profileData user profile launchConfig fs) = Some args \<Longrightarrow>
   args =
     [''-Xmx1G'', ''-XX:+UseConcMarkSweepGC'', ''-XX:+CMSIncrementalMode'',
      ''-XX:-UseAdaptiveSizePolicy'', ''-Xmn128M'',
      ''-Djava.library.path='' @ nativesDir_of minecraftDir profileData profile,
      ''-cp'',
      strings_Join
        ([p. library \<leftarrow> LaunchConfig_Libraries launchConfig,
             allowed (osStr_of goos) library \<and>
               mapIndex [] (Library_Natives library) (osStr_of goos) = [],
             Inr (filename, p) \<leftarrow> [resolveLibrary minecraftDir (Library_Name library) []]] @
         [path_Join [versionDir_of minecraftDir profileData profile,
            Profile_ID (mapIndex zeroProfile (Profiles profileData) profile) @ ''.jar'']])
        '':'',
      LaunchConfig_Class launchConfig] @
     substituteArgs minecraftDir profileData user profile (LaunchConfig_Args launchConfig)"
proof -
  assume "command (main env goos minecraftDir profileData user profile launchConfig fs) = Some args"
  from main_command [OF this] obtain st where
    loop: "libraryLoop env minecraftDir (nativesDir_of minecraftDir profileData profile)
          (osStr_of goos)
          \<lparr>st_fs = os_Mkdir fs (nativesDir_of minecraftDir profileData profile),
           st_libraries = [], st_hash = []\<rparr>
          (LaunchConfig_Libraries launchConfig) = Inr st"
    and args: "args = assembleArgs (nativesDir_of minecraftDir profileData profile)
          (st_libraries st @
            [path_Join [versionDir_of minecraftDir profileData profile,
               Profile_ID (mapIndex zeroProfile (Profiles profileData) profile) @ jarExt]])
          (LaunchConfig_Class launchConfig)
          (substituteArgs minecraftDir profileData user profile (LaunchConfig_Args launchConfig))"
    by blast
  from libraryLoop_libraries [OF loop] have libs: "st_libraries st =
      [p. library \<leftarrow> LaunchConfig_Libraries launchConfig,
          allowed (osStr_of goos) library \<and>
            mapIndex [] (Library_Natives library) (osStr_of goos) = [],
          Inr (filename, p) \<leftarrow> [resolveLibrary minecraftDir (Library_Name library) []]]"
    by simp
  show ?thesis
    unfolding args libs assembleArgs_def jarExt_def ..
qed

theorem launch_argument_vector_witness:
  "command (main
     \<lparr>sha1_Sum = \<lambda>bytes. [], zip_NewReader = \<lambda>bytes. None, java = \<lambda>args. Exited 0\<rparr>
     ''linux'' ''/home/x/game''
     \<lparr>Profiles = [''p'' \<mapsto> \<lparr>Profile_ID = ''v'', Profile_Args = []\<rparr>], SelectedProfile = ''p'',
      Users = [''u'' \<mapsto> \<lparr>User_Name = ''Alice'', User_AccessToken = ''tok''\<rparr>],
      SelectedUser = ''u''\<rparr>
     ''u'' ''p''
     \<lparr>LaunchConfig_Args = ''--user ${auth_player_name} --dir ${game_directory}'',
      LaunchConfig_Libraries = [], LaunchConfig_Class = ''M''\<rparr>
     Map.empty) =
   Some [''-Xmx1G'', ''-XX:+UseConcMarkSweepGC'', ''-XX:+CMSIncrementalMode'',
      ''-XX:-UseAdaptiveSizePolicy'', ''-Xmn128M'',
      ''-Djava.library.path=/home/x/game/versions/v/natives'',
      ''-cp'', ''/home/x/game/versions/v/v.jar'', ''M'',
      ''--user'', ''Alice'', ''--dir'', ''/home/x/game'']"
proof -
  let ?env = "\<lparr>sha1_Sum = \<lambda>bytes. [], zip_NewReader = \<lambda>bytes. None, java = \<lambda>args. Exited 0\<rparr>"
  let ?pd = "\<lparr>Profiles = [''p'' \<mapsto> \<lparr>Profile_ID = ''v'', Profile_Args = []\<rparr>], SelectedProfile = ''p'',
      Users = [''u'' \<mapsto> \<lparr>User_Name = ''Alice'', User_AccessToken = ''tok''\<rparr>],
      SelectedUser = ''u''\<rparr>"
  let ?lc = "\<lparr>LaunchConfig_Args = ''--user ${auth_player_name} --dir ${game_directory}'',
      LaunchConfig_Libraries = [], LaunchConfig_Class = ''M''\<rparr>"
  have vd: "versionDir_of ''/home/x/game'' ?pd ''p'' = ''/home/x/game/versions/v''"
    by (simp add: versionDir_of_def versionsDir_def mapIndex_def
        path_Join_def path_Clean_def cleanElem_def)
  have nd: "nativesDir_of ''/home/x/game'' ?pd ''p'' = ''/home/x/game/versions/v/natives''"
    unfolding nativesDir_of_def vd
    by (simp add: path_Join_def path_Clean_def cleanElem_def)
  have jar: "path_Join [''/home/x/game/versions/v'', ''v.jar''] = ''/home/x/game/versions/v/v.jar''"
    by (simp add: path_Join_def path_Clean_def cleanElem_def)
  have ma: "substituteArgs ''/home/x/game'' ?pd ''u'' ''p''
      ''--user ${auth_player_name} --dir ${game_directory}'' =
      [''--user'', ''Alice'', ''--dir'', ''/home/x/game'']"
    by (simp add: substituteArgs_map spec_replaceToken_def runtimeContext_def mapIndex_def)
  have "\<exists>args. command (main ?env ''linux'' ''/home/x/game'' ?pd ''u'' ''p'' ?lc Map.empty) = Some args"
    by (simp add: main_no_libraries supervise_command)
  then obtain args where
    c: "command (main ?env ''linux'' ''/home/x/game'' ?pd ''u'' ''p'' ?lc Map.empty) = Some args" ..
  from launch_argument_vector [OF c] have "args =
      [''-Xmx1G'', ''-XX:+UseConcMarkSweepGC'', ''-XX:+CMSIncrementalMode'',
       ''-XX:-UseAdaptiveSizePolicy'', ''-Xmn128M'',
       ''-Djava.library.path=/home/x/game/versions/v/natives'',
       ''-cp'', ''/home/x/game/versions/v/v.jar'', ''M'',
       ''--user'', ''Alice'', ''--dir'', ''/home/x/game'']"
    by (simp add: vd nd jar ma mapIndex_def)
  with c show ?thesis by simp
qed

text \<open>
  Claim C8, as the specification states it, fails: the value of \<^verbatim>\<open>cmd.Wait()\<close> is
  dropped (line 288), and the launcher ends with status 0. Here the child exits with
  status 1.
\<close>

theorem exit_status_counterexample:
  "java \<lparr>sha1_Sum = \<lambda>bytes. [], zip_NewReader = \<lambda>bytes. None, java = \<lambda>args. Exited 1\<rparr>
     (the (command (main
       \<lparr>sha1_Sum = \<lambda>bytes. [], zip_NewReader = \<lambda>bytes. None, java = \<lambda>args. Exited 1\<rparr>
       ''linux'' ''/mc''
       \<lparr>Profiles = [''p'' \<mapsto> \<lparr>Profile_ID = ''v'', Profile_Args = []\<rparr>], SelectedProfile = ''p'',
        Users = [''u'' \<mapsto> \<lparr>User_Name = ''Alice'', User_AccessToken = ''tok''\<rparr>],
        SelectedUser = ''u''\<rparr>
       ''u'' ''p''
       \<lparr>LaunchConfig_Args = [], LaunchConfig_Libraries = [], LaunchConfig_Class = ''M''\<rparr>
       Map.empty))) = Exited 1 \<and>
   command (main
       \<lparr>sha1_Sum = \<lambda>bytes. [], zip_NewReader = \<lambda>bytes. None, java = \<lambda>args. Exited 1\<rparr>
       ''linux'' ''/mc''
       \<lparr>Profiles = [''p'' \<mapsto> \<lparr>Profile_ID = ''v'', Profile_Args = []\<rparr>], SelectedProfile = ''p'',
        Users = [''u'' \<mapsto> \<lparr>User_Name = ''Alice'', User_AccessToken = ''tok''\<rparr>],
        SelectedUser = ''u''\<rparr>
       ''u'' ''p''
       \<lparr>LaunchConfig_Args = [], LaunchConfig_Libraries = [], LaunchConfig_Class = ''M''\<rparr>
       Map.empty) \<noteq> None \<and>
   status (main
       \<lparr>sha1_Sum = \<lambda>bytes. [], zip_NewReader = \<lambda>bytes. None, java = \<lambda>args. Exited 1\<rparr>
       ''linux'' ''/mc''
       \<lparr>Profiles = [''p'' \<mapsto> \<lparr>Profile_ID = ''v'', Profile_Args = []\<rparr>], SelectedProfile = ''p'',
        Users = [''u'' \<mapsto> \<lparr>User_Name = ''Alice'', User_AccessToken = ''tok''\<rparr>],
        SelectedUser = ''u''\<rparr>
       ''u'' ''p''
       \<lparr>LaunchConfig_Args = [], LaunchConfig_Libraries = [], LaunchConfig_Class = ''M''\<rparr>
       Map.empty) = 0"
  by (simp add: main_no_libraries supervise_command supervise_status)

text \<open>
  Claim C8, amended. In every run that gets as far as the command, the launcher's own
  exit status is 0, and nothing of the run's outcome depends on the status the child
  exits with: two environments that differ only in the child's exit status give the
  same outcome. (The copying of the child's two output streams is done by concurrent
  tasks and is not part of this model.)
\<close>

theorem child_exit_status_discarded:
  "(command (main env goos minecraftDir profileData user profile launchConfig fs) \<noteq> None \<longrightarrow>
      status (main env goos minecraftDir profileData user profile launchConfig fs) = 0) \<and>
   (sha1_Sum env' = sha1_Sum env \<and> zip_NewReader env' = zip_NewReader env \<and>
    (\<forall>args. \<exists>code. java env args = Exited code) \<and>
    (\<forall>args. \<exists>code. java env' args = Exited code) \<longrightarrow>
      main env' goos minecraftDir profileData user profile launchConfig fs =
      main env goos minecraftDir profileData user profile launchConfig fs)"
proof (intro conjI impI)
  let ?nd = "nativesDir_of minecraftDir profileData profile"
  let ?st0 = "\<lparr>st_fs = os_Mkdir fs ?nd, st_libraries = [], st_hash = []\<rparr>"
  {
    assume c: "command (main env goos minecraftDir profileData user profile launchConfig fs) \<noteq> None"
    show "status (main env goos minecraftDir profileData user profile launchConfig fs) = 0"
    proof (cases "libraryLoop env minecraftDir ?nd (osStr_of goos) ?st0
        (LaunchConfig_Libraries launchConfig)")
      case (Inl e)
      from main_aborted [OF Inl, of user] c show ?thesis by simp
    next
      case (Inr st)
      from main_supervised [OF Inr, of user] show ?thesis by (simp only: supervise_status)
    qed
  }
  {
    assume h: "sha1_Sum env' = sha1_Sum env \<and> zip_NewReader env' = zip_NewReader env \<and>
      (\<forall>args. \<exists>code. java env args = Exited code) \<and>
      (\<forall>args. \<exists>code. java env' args = Exited code)"
    then have loop: "libraryLoop env' minecraftDir ?nd (osStr_of goos) ?st0
        (LaunchConfig_Libraries launchConfig) =
      libraryLoop env minecraftDir ?nd (osStr_of goos) ?st0
        (LaunchConfig_Libraries launchConfig)"
      by (simp add: libraryLoop_env [of env' env])
    have sup: "supervise env' nativesDir args fs1 = supervise env nativesDir args fs1"
      for nativesDir args fs1
    proof -
      from h obtain code code' where "java env args = Exited code" "java env' args = Exited code'"
        by blast
      then show ?thesis by (simp add: supervise_exited)
    qed
    show "main env' goos minecraftDir profileData user profile launchConfig fs =
      main env goos minecraftDir profileData user profile launchConfig fs"
    proof (cases "libraryLoop env minecraftDir ?nd (osStr_of goos) ?st0
        (LaunchConfig_Libraries launchConfig)")
      case (Inl e)
      from Inl loop have "libraryLoop env' minecraftDir ?nd (osStr_of goos) ?st0
        (LaunchConfig_Libraries launchConfig) = Inl e" by simp
      from main_aborted [OF this, of user] main_aborted [OF Inl, of user]
      show ?thesis by simp
    next
      case (Inr st)
      from Inr loop have "libraryLoop env' minecraftDir ?nd (osStr_of goos) ?st0
        (LaunchConfig_Libraries launchConfig) = Inr st" by simp
      from main_supervised [OF this, of user] main_supervised [OF Inr, of user]
      show ?thesis by (simp only: sup)
    qed
  }
qed

theorem child_exit_status_discarded_witness:
  "status (main
       \<lparr>sha1_Sum = \<lambda>bytes. [], zip_NewReader = \<lambda>bytes. None, java = \<lambda>args. Exited 3\<rparr>
       ''linux'' ''/mc''
       \<lparr>Profiles = [''p'' \<mapsto> \<lparr>Profile_ID = ''v'', Profile_Args = []\<rparr>], SelectedProfile = ''p'',
        Users = [''u'' \<mapsto> \<lparr>User_Name = ''Alice'', User_AccessToken = ''tok''\<rparr>],
        SelectedUser = ''u''\<rparr>
       ''u'' ''p''
       \<lparr>LaunchConfig_Args = [], LaunchConfig_Libraries = [], LaunchConfig_Class = ''M''\<rparr>
       Map.empty) = 0 \<and>
   main \<lparr>sha1_Sum = \<lambda>bytes. [], zip_NewReader = \<lambda>bytes. None, java = \<lambda>args. Exited 0\<rparr>
       ''linux'' ''/mc''
       \<lparr>Profiles = [''p'' \<mapsto> \<lparr>Profile_ID = ''v'', Profile_Args = []\<rparr>], SelectedProfile = ''p'',
        Users = [''u'' \<mapsto> \<lparr>User_Name = ''Alice'', User_AccessToken = ''tok''\<rparr>],
        SelectedUser = ''u''\<rparr>
       ''u'' ''p''
       \<lparr>LaunchConfig_Args = [], LaunchConfig_Libraries = [], LaunchConfig_Class = ''M''\<rparr>
       Map.empty =
   main \<lparr>sha1_Sum = \<lambda>bytes. [], zip_NewReader = \<lambda>bytes. None, java = \<lambda>args. Exited 3\<rparr>
       ''linux'' ''/mc''
       \<lparr>Profiles = [''p'' \<mapsto> \<lparr>Profile_ID = ''v'', Profile_Args = []\<rparr>], SelectedProfile = ''p'',
        Users = [''u'' \<mapsto> \<lparr>User_Name = ''Alice'', User_AccessToken = ''tok''\<rparr>],
        SelectedUser = ''u''\<rparr>
       ''u'' ''p''
       \<lparr>LaunchConfig_Args = [], LaunchConfig_Libraries = [], LaunchConfig_Class = ''M''\<rparr>
       Map.empty"
proof -
  let ?env = "\<lparr>sha1_Sum = \<lambda>bytes. [], zip_NewReader = \<lambda>bytes. None, java = \<lambda>args. Exited 3\<rparr>"
  let ?env' = "\<lparr>sha1_Sum = \<lambda>bytes. [], zip_NewReader = \<lambda>bytes. None, java = \<lambda>args. Exited 0\<rparr>"
  let ?pd = "\<lparr>Profiles = [''p'' \<mapsto> \<lparr>Profile_ID = ''v'', Profile_Args = []\<rparr>], SelectedProfile = ''p'',
        Users = [''u'' \<mapsto> \<lparr>User_Name = ''Alice'', User_AccessToken = ''tok''\<rparr>],
        SelectedUser = ''u''\<rparr>"
  let ?lc = "\<lparr>LaunchConfig_Args = [], LaunchConfig_Libraries = [], LaunchConfig_Class = ''M''\<rparr>"
  note T = child_exit_status_discarded [where env = ?env and env' = ?env' and goos = "''linux''"
      and minecraftDir = "''/mc''" and profileData = ?pd and user = "''u''" and profile = "''p''"
      and launchConfig = ?lc and fs = Map.empty]
  have c: "command (main ?env ''linux'' ''/mc'' ?pd ''u'' ''p'' ?lc Map.empty) \<noteq> None"
    by (simp add: main_no_libraries supervise_command)
  have h: "sha1_Sum ?env' = sha1_Sum ?env \<and> zip_NewReader ?env' = zip_NewReader ?env \<and>
    (\<forall>args. \<exists>code. java ?env args = Exited code) \<and>
    (\<forall>args. \<exists>code. java ?env' args = Exited code)"
    by simp
  from T c h show ?thesis by blast
qed

section \<open>Paths and coordinate resolution\<close>


























end
